theory Spec2Isabelle
  imports Complex_Main "HOL-Library.Char_ord" "HOL-Library.List_Lexorder" "HOL-Library.Multiset"
begin

text \<open>
  The two services of the repository, \<^verbatim>\<open>src/tools/finance/tushare_realtime_service.py\<close>
  (quotes, ticks, minute bars and rankings of A-shares, with a cache of the symbol table
  on disk) and \<^verbatim>\<open>src/tools/finance/finnhub_service.py\<close> (categories of data on US
  stocks and their aggregation), as functions of HOL. A method keeps its name without the
  leading underscore. What a method reads from outside (the provider, the clock, the
  disk) is an argument; what it changes outside is returned.
\<close>

section \<open>Python strings\<close>

text \<open>
  A Python \<open>str\<close> is modelled as a HOL \<open>string\<close>; a \<open>char\<close> stands for a code point
  below 256. The case mapping and the whitespace test below are Python's on the ASCII
  range, which is where the frequency names and the separators of this program live;
  \<open>upper_char\<close> leaves every other character as it is.
\<close>

definition upper_char :: "char \<Rightarrow> char" where
  "upper_char c =
     (case map_of (zip ''abcdefghijklmnopqrstuvwxyz'' ''ABCDEFGHIJKLMNOPQRSTUVWXYZ'') c of
        Some u \<Rightarrow> u
      | None \<Rightarrow> c)"

definition upper :: "string \<Rightarrow> string" where
  "upper s = map upper_char s"

definition isspace :: "char \<Rightarrow> bool" where
  "isspace c \<longleftrightarrow>
     c \<in> set [CHR 0x09, CHR 0x0A, CHR 0x0B, CHR 0x0C, CHR 0x0D, CHR 0x1C, CHR 0x1D,
              CHR 0x1E, CHR 0x1F, CHR 0x20, CHR 0x85, CHR 0xA0]"

definition strip :: "string \<Rightarrow> string" where
  "strip s = rev (dropWhile isspace (rev (dropWhile isspace s)))"

text \<open>\<open>s.split(sep)\<close> for a one-character separator: never an empty list.\<close>

fun split :: "char \<Rightarrow> string \<Rightarrow> string list" where
  "split sep [] = [[]]"
| "split sep (c # cs) =
     (if c = sep then [] # split sep cs
      else (case split sep cs of
              [] \<Rightarrow> [[c]]
            | w # ws \<Rightarrow> (c # w) # ws))"

text \<open>\<open>sep.join(xs)\<close>.\<close>

fun join :: "string \<Rightarrow> string list \<Rightarrow> string" where
  "join sep [] = []"
| "join sep [x] = x"
| "join sep (x # y # ys) = x @ sep @ join sep (y # ys)"

section \<open>Python dictionaries\<close>

text \<open>
  A \<open>dict\<close> keeps its keys in insertion order; assigning to a key that is present
  replaces the value in place.
\<close>

type_synonym ('k, 'v) dict = "('k \<times> 'v) list"

fun dict_set :: "'k \<Rightarrow> 'v \<Rightarrow> ('k, 'v) dict \<Rightarrow> ('k, 'v) dict" where
  "dict_set k v [] = [(k, v)]"
| "dict_set k v ((k', v') # d) =
     (if k = k' then (k', v) # d else (k', v') # dict_set k v d)"

definition dict_get :: "('k, 'v) dict \<Rightarrow> 'k \<Rightarrow> 'v option" where
  "dict_get d k = map_of d k"

definition dict_keys :: "('k, 'v) dict \<Rightarrow> 'k list" where
  "dict_keys d = map fst d"

definition dict_values :: "('k, 'v) dict \<Rightarrow> 'v list" where
  "dict_values d = map snd d"

section \<open>Response envelopes\<close>

text \<open>
  Both services answer with a dictionary of at most the keys \<open>success\<close>, \<open>found\<close>,
  \<open>data\<close>, \<open>error\<close> and \<open>metadata\<close>. A key that the dictionary does not have is
  \<open>None\<close> here.
\<close>

datatype mval = MStr string | MInt int | MBool bool | MList "string list"

record 'd envelope =
  success :: bool
  found :: "bool option"
  data :: "'d option"
  error :: "string option"
  metadata :: "(string, mval) dict option"

text \<open>\<open>{"success": False, "error": msg}\<close>\<close>

definition failure :: "string \<Rightarrow> 'd envelope" where
  "failure msg =
     \<lparr>success = False, found = None, data = None, error = Some msg, metadata = None\<rparr>"

text \<open>\<open>{"success": True, "data": d, "metadata": m}\<close>\<close>

definition succeeded :: "'d \<Rightarrow> (string, mval) dict \<Rightarrow> 'd envelope" where
  "succeeded d m =
     \<lparr>success = True, found = None, data = Some d, error = None, metadata = Some m\<rparr>"

section \<open>Frequency validation (tushare_realtime_service.py)\<close>

definition FREQ_OPTIONS :: "string list" where
  "FREQ_OPTIONS = [''1MIN'', ''5MIN'', ''15MIN'', ''30MIN'', ''60MIN'']"

text \<open>The text Python prints for \<open>FREQ_OPTIONS\<close> inside the f-string of the error.\<close>

definition FREQ_OPTIONS_repr :: string where
  "FREQ_OPTIONS_repr =
     ''['' @ join '', '' (map (\<lambda>f. [CHR 0x27] @ f @ [CHR 0x27]) FREQ_OPTIONS) @ '']''"

text \<open>\<open>f"Invalid freq: {freq}. Must be one of {self.FREQ_OPTIONS}"\<close>\<close>

definition invalid_freq_message :: "string \<Rightarrow> string" where
  "invalid_freq_message freq =
     ''Invalid freq: '' @ freq @ ''. Must be one of '' @ FREQ_OPTIONS_repr"

text \<open>\<open>Inl msg\<close>: the function raises \<open>ValueError(msg)\<close>.\<close>

definition validate_freq :: "string \<Rightarrow> string + string" where
  "validate_freq freq =
     (let freq_upper = upper freq
      in if freq_upper \<notin> set FREQ_OPTIONS
         then Inl (invalid_freq_message freq)
         else Inr freq_upper)"

section \<open>The A-share service and the world around it\<close>

text \<open>
  One row of the symbol table that the provider's \<open>stock_basic\<close> call returns with
  \<open>fields='ts_code,symbol,name'\<close>; the table is the list of its rows, and so is the
  \<open>to_dict('records')\<close> form that goes into the cache file.
\<close>

record DirectoryEntry =
  ts_code :: string
  symbol :: string
  name :: string

text \<open>
  A cache file \<open>{"timestamp": t, "data": d}\<close>. A missing \<open>timestamp\<close> reads as 0, a missing
  or null \<open>data\<close> as \<open>None\<close>. \<open>Unreadable\<close> is a file on which \<open>open\<close>, \<open>json.load\<close> or
  the reading of the two keys raises. Times are seconds, as exact numbers.
\<close>

datatype cache_file =
  Unreadable
| CacheRecord (timestamp: real) (payload: "DirectoryEntry list option")

datatype 'a outcome = Raises string | ReturnsNone | Returns 'a

text \<open>
  Any other table of the provider is the list of its rows, every row a dictionary from
  column name to cell; \<open>df.empty\<close> holds when there is no row or no column.
\<close>

datatype cell = NaN | Num real | Str string

type_synonym row = "(string, cell) dict"

type_synonym frame = "row list"

definition df_empty :: "frame \<Rightarrow> bool" where
  "df_empty df \<longleftrightarrow> concat df = []"

datatype pyval = VNull | VNum real | VStr string

type_synonym py_record = "(string, pyval) dict"

text \<open>What happens to the cache file in \<open>_save_cache\<close>: \<open>open\<close> may raise before the
  file is touched, \<open>json.dump\<close> may raise after it has been truncated.\<close>

datatype write_outcome = Written | NotOpened | Truncated

datatype call =
  StockBasic
| RtMin string string
| RealtimeQuote string string
| RealtimeTick string string
| RealtimeList string

text \<open>
  What the service reads from outside during one operation. The clock, the disk and the
  provider are indexed by the number of upstream calls made so far, so that two calls of
  the same endpoint may end differently. The three \<open>_record\<close> functions stand for the
  dictionary displays that turn one provider row into one output record by floating-point
  conversions; \<open>Inl msg\<close> is an exception whose text is \<open>msg\<close>. \<open>pro\<close> says that
  \<open>self.pro\<close> is set, that is, that a token was found and the provider's client created.
  \<open>type_error_text\<close> is the text \<open>str(e)\<close> of the \<open>TypeError\<close> that the library raises when
  it sorts the given frame by a column that cannot be compared.
\<close>

record env =
  pro :: bool
  TUSHARE_AVAILABLE :: bool
  time :: "nat \<Rightarrow> real"
  now_text :: "nat \<Rightarrow> string"
  disk_write :: "nat \<Rightarrow> write_outcome"
  stock_basic :: "nat \<Rightarrow> DirectoryEntry list outcome"
  rt_min :: "nat \<Rightarrow> string \<Rightarrow> string \<Rightarrow> frame outcome"
  realtime_quote :: "nat \<Rightarrow> string \<Rightarrow> string \<Rightarrow> frame outcome"
  realtime_tick :: "nat \<Rightarrow> string \<Rightarrow> string \<Rightarrow> frame outcome"
  realtime_list :: "nat \<Rightarrow> string \<Rightarrow> frame outcome"
  minute_record :: "(string, string) dict \<Rightarrow> row \<Rightarrow> string + py_record"
  quote_record :: "row \<Rightarrow> string + py_record"
  tick_record :: "row \<Rightarrow> string + py_record"
  type_error_text :: "string \<Rightarrow> bool \<Rightarrow> py_record list \<Rightarrow> string"

text \<open>The cache directory (cache key to file) and the log of upstream calls.\<close>

record world =
  disk :: "string \<rightharpoonup> cache_file"
  calls :: "call list"

definition upstream :: "call \<Rightarrow> world \<Rightarrow> world" where
  "upstream c w = w\<lparr>calls := calls w @ [c]\<rparr>"

definition cache_expire_hours :: real where
  "cache_expire_hours = 24"

definition load_cache :: "env \<Rightarrow> world \<Rightarrow> string \<Rightarrow> DirectoryEntry list option" where
  "load_cache e w cache_key =
     (case disk w cache_key of
        None \<Rightarrow> None
      | Some Unreadable \<Rightarrow> None
      | Some (CacheRecord cache_time cached) \<Rightarrow>
          if time e (length (calls w)) - cache_time < cache_expire_hours * 3600
          then cached else None)"

definition save_cache :: "env \<Rightarrow> world \<Rightarrow> string \<Rightarrow> DirectoryEntry list \<Rightarrow> world" where
  "save_cache e w cache_key d =
     (case disk_write e (length (calls w)) of
        Written \<Rightarrow>
          w\<lparr>disk := (disk w)(cache_key \<mapsto> CacheRecord (time e (length (calls w))) (Some d))\<rparr>
      | NotOpened \<Rightarrow> w
      | Truncated \<Rightarrow> w\<lparr>disk := (disk w)(cache_key \<mapsto> Unreadable)\<rparr>)"

text \<open>
  \<open>_get_stock_basic\<close>. The test \<open>if cached_data:\<close> holds for a list with rows; the test
  \<open>df is not None and not df.empty\<close> holds for a table with rows. The result \<open>None\<close> is
  Python's.
\<close>

definition get_stock_basic :: "env \<Rightarrow> world \<Rightarrow> DirectoryEntry list option \<times> world" where
  "get_stock_basic e w =
     (if \<not> pro e then (None, w)
      else case load_cache e w ''stock_basic'' of
        Some (c # cs) \<Rightarrow> (Some (c # cs), w)
      | _ \<Rightarrow>
          (let w1 = upstream StockBasic w
           in case stock_basic e (length (calls w)) of
                Returns (r # rs) \<Rightarrow> (Some (r # rs), save_cache e w1 ''stock_basic'' (r # rs))
              | _ \<Rightarrow> (None, w1)))"

definition get_code_by_name ::
  "env \<Rightarrow> world \<Rightarrow> string list \<Rightarrow> (string, string) dict \<times> world" where
  "get_code_by_name e w names =
     (case get_stock_basic e w of
        (None, w1) \<Rightarrow> ([], w1)
      | (Some df, w1) \<Rightarrow>
          if df = [] then ([], w1)
          else (fold (\<lambda>n name_map.
                        case filter (\<lambda>r. name r = n) df of
                          [] \<Rightarrow> name_map
                        | r # _ \<Rightarrow> dict_set n (ts_code r) name_map)
                     names [],
                w1))"

definition get_name_by_code ::
  "env \<Rightarrow> world \<Rightarrow> string list \<Rightarrow> (string, string) dict \<times> world" where
  "get_name_by_code e w codes =
     (case get_stock_basic e w of
        (None, w1) \<Rightarrow> ([], w1)
      | (Some df, w1) \<Rightarrow>
          if df = [] then ([], w1)
          else (fold (\<lambda>c code_map.
                        case filter (\<lambda>r. ts_code r = c) df of
                          [] \<Rightarrow> code_map
                        | r # _ \<Rightarrow> dict_set c (name r) code_map)
                     codes [],
                w1))"

text \<open>The loop \<open>for _, row in df.iterrows(): records.append({...})\<close>; the first row whose
  conversion raises ends it.\<close>

fun convert_rows :: "(row \<Rightarrow> string + py_record) \<Rightarrow> frame \<Rightarrow> string + py_record list" where
  "convert_rows f [] = Inr []"
| "convert_rows f (r # rs) =
     (case f r of
        Inl msg \<Rightarrow> Inl msg
      | Inr x \<Rightarrow> (case convert_rows f rs of Inl msg \<Rightarrow> Inl msg | Inr xs \<Rightarrow> Inr (x # xs)))"

definition no_data_message :: string where
  "no_data_message = ''No data returned (market may be closed)''"

subsection \<open>Minute bars\<close>

definition get_realtime_minute ::
  "env \<Rightarrow> world \<Rightarrow> string \<Rightarrow> string \<Rightarrow> py_record list envelope \<times> world" where
  "get_realtime_minute e w ts_codes freq0 =
     (if \<not> pro e then (failure ''Tushare not initialized'', w)
      else case validate_freq freq0 of
        Inl msg \<Rightarrow> (failure msg, w)
      | Inr freq \<Rightarrow>
          (let w1 = upstream (RtMin ts_codes freq) w;
               no_data = succeeded []
                 [(''ts_codes'', MStr ts_codes), (''freq'', MStr freq), (''count'', MInt 0),
                  (''message'', MStr no_data_message)]
           in case rt_min e (length (calls w)) ts_codes freq of
                Raises msg \<Rightarrow> (failure msg, w1)
              | ReturnsNone \<Rightarrow> (no_data, w1)
              | Returns df \<Rightarrow>
                  if df_empty df then (no_data, w1)
                  else (case get_name_by_code e w1 (split CHR '','' ts_codes) of
                          (code_name_map, w2) \<Rightarrow>
                            (case convert_rows (minute_record e code_name_map) df of
                               Inl msg \<Rightarrow> (failure msg, w2)
                             | Inr records \<Rightarrow>
                                 (succeeded records
                                    [(''ts_codes'', MStr ts_codes), (''freq'', MStr freq),
                                     (''count'', MInt (int (length records))),
                                     (''query_time'', MStr (now_text e (length (calls w2))))],
                                  w2)))))"

text \<open>\<open>[n.strip() for n in stock_names.split(',') if n.strip()]\<close>\<close>

definition names_list :: "string \<Rightarrow> string list" where
  "names_list stock_names =
     map strip (filter (\<lambda>n. strip n \<noteq> []) (split CHR '','' stock_names))"

text \<open>\<open>result["metadata"]["not_found_names"] = not_found\<close>; the assignment is reached
  with a successful result only, and those carry a \<open>metadata\<close> dictionary.\<close>

definition attach_not_found :: "string list \<Rightarrow> 'd envelope \<Rightarrow> 'd envelope" where
  "attach_not_found not_found result =
     (if not_found \<noteq> [] \<and> success result
      then result\<lparr>metadata :=
             map_option (dict_set ''not_found_names'' (MList not_found)) (metadata result)\<rparr>
      else result)"

definition get_minute_by_name ::
  "env \<Rightarrow> world \<Rightarrow> string \<Rightarrow> string \<Rightarrow> py_record list envelope \<times> world" where
  "get_minute_by_name e w stock_names freq =
     (if \<not> pro e then (failure ''Tushare not initialized'', w)
      else if names_list stock_names = [] then (failure ''No stock names provided'', w)
      else case get_code_by_name e w (names_list stock_names) of
        (name_code_map, w1) \<Rightarrow>
          if name_code_map = []
          then (failure (''Could not find codes for: '' @ stock_names), w1)
          else (let not_found =
                      filter (\<lambda>n. n \<notin> set (dict_keys name_code_map)) (names_list stock_names);
                    ts_codes = join '','' (dict_values name_code_map)
                in case get_realtime_minute e w1 ts_codes freq of
                     (result, w2) \<Rightarrow> (attach_not_found not_found result, w2)))"

subsection \<open>Quotes\<close>

definition get_realtime_quote ::
  "env \<Rightarrow> world \<Rightarrow> string \<Rightarrow> string \<Rightarrow> py_record list envelope \<times> world" where
  "get_realtime_quote e w ts_codes src =
     (if \<not> TUSHARE_AVAILABLE e then (failure ''Tushare not available'', w)
      else (let w1 = upstream (RealtimeQuote ts_codes src) w;
                no_data = succeeded []
                  [(''ts_codes'', MStr ts_codes), (''src'', MStr src), (''count'', MInt 0),
                   (''message'', MStr no_data_message)]
            in case realtime_quote e (length (calls w)) ts_codes src of
                 Raises msg \<Rightarrow> (failure msg, w1)
               | ReturnsNone \<Rightarrow> (no_data, w1)
               | Returns df \<Rightarrow>
                   if df_empty df then (no_data, w1)
                   else (case convert_rows (quote_record e) df of
                           Inl msg \<Rightarrow> (failure msg, w1)
                         | Inr records \<Rightarrow>
                             (succeeded records
                                [(''ts_codes'', MStr ts_codes), (''src'', MStr src),
                                 (''count'', MInt (int (length records))),
                                 (''query_time'', MStr (now_text e (length (calls w1))))],
                              w1))))"

definition get_realtime_by_name ::
  "env \<Rightarrow> world \<Rightarrow> string \<Rightarrow> py_record list envelope \<times> world" where
  "get_realtime_by_name e w stock_names =
     (if names_list stock_names = [] then (failure ''No stock names provided'', w)
      else if length (names_list stock_names) > 50
      then (failure ''Maximum 50 stocks per request'', w)
      else case get_code_by_name e w (names_list stock_names) of
        (name_code_map, w1) \<Rightarrow>
          if name_code_map = []
          then (failure (''Could not find codes for: '' @ stock_names), w1)
          else (let not_found =
                      filter (\<lambda>n. n \<notin> set (dict_keys name_code_map)) (names_list stock_names);
                    ts_codes = join '','' (dict_values name_code_map)
                in case get_realtime_quote e w1 ts_codes ''sina'' of
                     (result, w2) \<Rightarrow> (attach_not_found not_found result, w2)))"

subsection \<open>Ticks\<close>



subsection \<open>The market-wide ranking\<close>

text \<open>The cleaning of one cell in \<open>_get_realtime_list\<close>: a null becomes \<open>None\<close>, a number
  stays, anything else becomes its text (\<open>Str\<close> carries that text).\<close>

fun clean_value :: "cell \<Rightarrow> pyval" where
  "clean_value NaN = VNull"
| "clean_value (Num x) = VNum x"
| "clean_value (Str s) = VStr s"

definition clean_record :: "row \<Rightarrow> py_record" where
  "clean_record record = fold (\<lambda>(key, v) cleaned. dict_set key (clean_value v) cleaned) record []"

definition get_realtime_list ::
  "env \<Rightarrow> world \<Rightarrow> string \<Rightarrow> py_record list envelope \<times> world" where
  "get_realtime_list e w src =
     (if \<not> TUSHARE_AVAILABLE e then (failure ''Tushare not available'', w)
      else (let w1 = upstream (RealtimeList src) w;
                no_data = succeeded []
                  [(''src'', MStr src), (''count'', MInt 0), (''message'', MStr no_data_message)]
            in case realtime_list e (length (calls w)) src of
                 Raises msg \<Rightarrow> (failure msg, w1)
               | ReturnsNone \<Rightarrow> (no_data, w1)
               | Returns df \<Rightarrow>
                   if df_empty df then (no_data, w1)
                   else (let cleaned_records = map clean_record df
                         in (succeeded cleaned_records
                               [(''src'', MStr src),
                                (''count'', MInt (int (length cleaned_records))),
                                (''query_time'', MStr (now_text e (length (calls w1))))],
                             w1))))"

text \<open>
  \<open>pd.DataFrame(records)\<close> of a list of dictionaries: the columns are the keys in the order
  of their first appearance, and a record without a key has a null in that column. The
  frame is kept as the list of its rows in \<open>to_dict('records')\<close> form.
\<close>

definition columns_of :: "py_record list \<Rightarrow> string list" where
  "columns_of records = rev (remdups (rev (concat (map dict_keys records))))"

definition cell_of :: "py_record \<Rightarrow> string \<Rightarrow> pyval" where
  "cell_of r c = (case dict_get r c of None \<Rightarrow> VNull | Some v \<Rightarrow> v)"

definition DataFrame :: "py_record list \<Rightarrow> py_record list" where
  "DataFrame records = map (\<lambda>r. map (\<lambda>c. (c, cell_of r c)) (columns_of records)) records"

fun is_num :: "pyval \<Rightarrow> bool" where
  "is_num (VNum _) = True"
| "is_num _ = False"

fun is_str :: "pyval \<Rightarrow> bool" where
  "is_str (VStr _) = True"
| "is_str _ = False"

fun num_of :: "pyval \<Rightarrow> real" where
  "num_of (VNum x) = x"
| "num_of _ = 0"

fun str_of :: "pyval \<Rightarrow> string" where
  "str_of (VStr s) = s"
| "str_of _ = []"

text \<open>
  \<open>df.sort_values(by=..., ascending=..., na_position='last')\<close>. The rows with a null in
  the column go last, in their order. The others are sorted by the column; for the
  descending order pandas reverses them, sorts ascending and reverses the result. A
  column that holds numbers and texts cannot be compared: pandas raises \<open>TypeError\<close>,
  here \<open>Inl\<close> with the text of the exception, which is an argument: it names the
  types of the two values whose comparison failed, and which two these are is the sorting
  algorithm's affair. The order that the library gives to rows with equal keys is not
  specified; this model keeps them in their order, and no statement below depends on it.
\<close>

definition order_by :: "bool \<Rightarrow> ('a \<Rightarrow> 'k::linorder) \<Rightarrow> 'a list \<Rightarrow> 'a list" where
  "order_by ascending key xs =
     (if ascending then sort_key key xs else rev (sort_key key (rev xs)))"

definition sort_values ::
  "string \<Rightarrow> string \<Rightarrow> bool \<Rightarrow> py_record list \<Rightarrow> string + py_record list" where
  "sort_values type_error by ascending df =
     (let present = filter (\<lambda>r. cell_of r by \<noteq> VNull) df;
          missing = filter (\<lambda>r. cell_of r by = VNull) df;
          has_num = list_ex (\<lambda>r. is_num (cell_of r by)) present;
          has_str = list_ex (\<lambda>r. is_str (cell_of r by)) present
      in if has_num \<and> has_str then Inl type_error
         else if has_str
         then Inr (order_by ascending (\<lambda>r. str_of (cell_of r by)) present @ missing)
         else Inr (order_by ascending (\<lambda>r. num_of (cell_of r by)) present @ missing))"

text \<open>\<open>df.head(n)\<close>: the first \<open>n\<close> rows, and for a negative \<open>n\<close> all rows but the
  last \<open>-n\<close>.\<close>

definition head :: "int \<Rightarrow> 'a list \<Rightarrow> 'a list" where
  "head n xs = (if 0 \<le> n then take (nat n) xs else take (length xs - nat (- n)) xs)"

definition get_realtime_list_top ::
  "env \<Rightarrow> world \<Rightarrow> string \<Rightarrow> int \<Rightarrow> string \<Rightarrow> bool \<Rightarrow> py_record list envelope \<times> world" where
  "get_realtime_list_top e w src top_n sort_by ascending =
     (case get_realtime_list e w src of
        (result, w1) \<Rightarrow>
          if \<not> success result \<or> data result = None \<or> data result = Some []
          then (result, w1)
          else (case data result of
                  None \<Rightarrow> (result, w1)
                | Some records \<Rightarrow>
                    (case (if sort_by \<in> set (columns_of records)
                           then sort_values
                                  (type_error_text e sort_by ascending (DataFrame records))
                                  sort_by ascending (DataFrame records)
                           else Inr (DataFrame records)) of
                       Inl msg \<Rightarrow> (failure msg, w1)
                     | Inr df \<Rightarrow>
                         (let df_top = head top_n df
                          in (succeeded df_top
                                [(''src'', MStr src), (''top_n'', MInt top_n),
                                 (''sort_by'', MStr sort_by), (''ascending'', MBool ascending),
                                 (''count'', MInt (int (length df_top))),
                                 (''total_stocks'', MInt (int (length df))),
                                 (''query_time'', MStr (now_text e (length (calls w1))))],
                              w1)))))"

section \<open>The US-equities service (finnhub_service.py)\<close>

text \<open>What the provider's client returns is JSON; Python's \<open>None\<close> is \<open>JNull\<close>.\<close>

datatype json =
  JNull
| JBool bool
| JNum real
| JStr string
| JList "json list"
| JObj "(string \<times> json) list"

text \<open>Python's truth value of such a value (\<open>True if data else False\<close>).\<close>

fun truthy :: "json \<Rightarrow> bool" where
  "truthy JNull = False"
| "truthy (JBool b) = b"
| "truthy (JNum x) = (x \<noteq> 0)"
| "truthy (JStr s) = (s \<noteq> [])"
| "truthy (JList xs) = (xs \<noteq> [])"
| "truthy (JObj kvs) = (kvs \<noteq> [])"

text \<open>The endpoints of the provider's client that the service uses; the arguments are
  those of the calls in the source.\<close>

record client =
  company_profile2 :: "string \<Rightarrow> json outcome"
  company_peers :: "string \<Rightarrow> json outcome"
  quote :: "string \<Rightarrow> json outcome"
  company_basic_financials :: "string \<Rightarrow> string \<Rightarrow> json outcome"
  company_earnings :: "string \<Rightarrow> int \<Rightarrow> json outcome"
  stock_dividends :: "string \<Rightarrow> string \<Rightarrow> string \<Rightarrow> json outcome"
  recommendation_trends :: "string \<Rightarrow> json outcome"
  company_news :: "string \<Rightarrow> string \<Rightarrow> string \<Rightarrow> json outcome"
  transcripts :: "string \<Rightarrow> json outcome"
  transcripts_list :: "string \<Rightarrow> json outcome"
  company_executive :: "string \<Rightarrow> json outcome"
  filings :: "string \<Rightarrow> string \<Rightarrow> string \<Rightarrow> json outcome"
  stock_insider_transactions :: "string \<Rightarrow> string \<Rightarrow> string \<Rightarrow> json outcome"
  ownership :: "string \<Rightarrow> int \<Rightarrow> json outcome"
  fund_ownership :: "string \<Rightarrow> int \<Rightarrow> json outcome"
  news_sentiment :: "string \<Rightarrow> json outcome"
  stock_social_sentiment :: "string \<Rightarrow> json outcome"
  stock_insider_sentiment :: "string \<Rightarrow> string \<Rightarrow> string \<Rightarrow> json outcome"
  upgrade_downgrade :: "string \<Rightarrow> string \<Rightarrow> string \<Rightarrow> json outcome"
  pattern_recognition :: "string \<Rightarrow> string \<Rightarrow> json outcome"
  support_resistance :: "string \<Rightarrow> string \<Rightarrow> json outcome"
  aggregate_indicator :: "string \<Rightarrow> string \<Rightarrow> json outcome"

text \<open>
  The service object: \<open>self.client\<close> is \<open>None\<close> when the constructor of the client raised.
  \<open>query_time k\<close> is the text of the \<open>k\<close>-th reading of the clock by \<open>_format_response\<close>
  during one operation, \<open>generated_at\<close> the ISO text of the reading by the aggregator.
\<close>

record finnhub =
  client :: "client option"
  query_time :: "nat \<Rightarrow> string"
  generated_at :: string

datatype error = AttributeError string

text \<open>\<open>_safe_api_call(func, *args)\<close>, given how the call \<open>func(*args)\<close> ends.\<close>

definition safe_api_call :: "finnhub \<Rightarrow> json outcome \<Rightarrow> json" where
  "safe_api_call svc call_result =
     (if client svc = None then JNull
      else case call_result of
             Raises msg \<Rightarrow> JNull
           | ReturnsNone \<Rightarrow> JNull
           | Returns j \<Rightarrow> j)"

text \<open>\<open>_format_response(data, meta)\<close>, given the text \<open>now\<close> of the clock that it reads;
  \<open>{"query_time": now, **(meta or {})}\<close> lets the keys of \<open>meta\<close> follow and override.\<close>

definition format_response ::
  "string \<Rightarrow> json \<Rightarrow> (string, mval) dict option \<Rightarrow> json envelope" where
  "format_response now d meta =
     (let md = fold (\<lambda>(k, v) m. dict_set k v m)
                 (case meta of None \<Rightarrow> [] | Some m \<Rightarrow> m)
                 [(''query_time'', MStr now)]
      in if d = JNull
         then \<lparr>success = False, found = None, data = None,
               error = Some ''No data returned or API error'', metadata = Some md\<rparr>
         else \<lparr>success = True, found = Some (truthy d), data = Some d,
               error = None, metadata = Some md\<rparr>)"

text \<open>
  The category fetchers. Each evaluates \<open>self.client.<endpoint>\<close> as an argument of
  \<open>_safe_api_call\<close>, which raises \<open>AttributeError\<close> when \<open>self.client\<close> is \<open>None\<close>. The
  number \<open>k\<close> says which reading of the clock the fetcher's \<open>_format_response\<close> is.
\<close>

definition no_client :: error where
  "no_client = AttributeError ''NoneType object has no attribute''"

definition period :: "string \<Rightarrow> string \<Rightarrow> mval" where
  "period start_date end_date = MStr (start_date @ '' to '' @ end_date)"

definition get_company_profile :: "finnhub \<Rightarrow> nat \<Rightarrow> string \<Rightarrow> error + json envelope" where
  "get_company_profile svc k symb =
     (case client svc of
        None \<Rightarrow> Inl no_client
      | Some c \<Rightarrow>
          (let d = dict_set ''profile'' (safe_api_call svc (company_profile2 c symb)) [];
               d = dict_set ''peers'' (safe_api_call svc (company_peers c symb)) d
           in Inr (format_response (query_time svc k) (JObj d) (Some [(''symbol'', MStr symb)]))))"

definition get_market_data ::
  "finnhub \<Rightarrow> nat \<Rightarrow> string \<Rightarrow> string \<Rightarrow> string \<Rightarrow> error + json envelope" where
  "get_market_data svc k symb start_date end_date =
     (case client svc of
        None \<Rightarrow> Inl no_client
      | Some c \<Rightarrow>
          (let d = dict_set ''quote'' (safe_api_call svc (quote c symb)) []
           in Inr (format_response (query_time svc k) (JObj d)
                     (Some [(''symbol'', MStr symb), (''period'', period start_date end_date)]))))"

definition get_financials ::
  "finnhub \<Rightarrow> nat \<Rightarrow> string \<Rightarrow> string \<Rightarrow> string \<Rightarrow> error + json envelope" where
  "get_financials svc k symb start_date end_date =
     (case client svc of
        None \<Rightarrow> Inl no_client
      | Some c \<Rightarrow>
          (let d = dict_set ''basic_financials''
                     (safe_api_call svc (company_basic_financials c symb ''all'')) [];
               d = dict_set ''earnings_surprises''
                     (safe_api_call svc (company_earnings c symb 4)) d;
               d = dict_set ''dividends''
                     (safe_api_call svc (stock_dividends c symb start_date end_date)) d
           in Inr (format_response (query_time svc k) (JObj d)
                     (Some [(''symbol'', MStr symb), (''period'', period start_date end_date)]))))"

definition get_estimates_and_analysis ::
  "finnhub \<Rightarrow> nat \<Rightarrow> string \<Rightarrow> string \<Rightarrow> string \<Rightarrow> error + json envelope" where
  "get_estimates_and_analysis svc k symb start_date end_date =
     (case client svc of
        None \<Rightarrow> Inl no_client
      | Some c \<Rightarrow>
          (let d = dict_set ''recommendation_trends''
                     (safe_api_call svc (recommendation_trends c symb)) []
           in Inr (format_response (query_time svc k) (JObj d)
                     (Some [(''symbol'', MStr symb), (''period'', period start_date end_date)]))))"

definition get_sentiment_and_news ::
  "finnhub \<Rightarrow> nat \<Rightarrow> string \<Rightarrow> string \<Rightarrow> string \<Rightarrow> error + json envelope" where
  "get_sentiment_and_news svc k symb start_date end_date =
     (case client svc of
        None \<Rightarrow> Inl no_client
      | Some c \<Rightarrow>
          (let news = safe_api_call svc (company_news c symb start_date end_date);
               d = (case news of
                      JList items \<Rightarrow> dict_set ''news'' (JList (take 10 items)) []
                    | _ \<Rightarrow> dict_set ''news'' news [])
           in Inr (format_response (query_time svc k) (JObj d)
                     (Some [(''symbol'', MStr symb), (''period'', period start_date end_date)]))))"

text \<open>
  The aggregator. \<open>collect\<close> is one of its five steps
  \<open>if res.get("success"): raw_data[key] = res.get("data")\<close>; \<open>merge_stock_info\<close> is what it
  does with the five envelopes once it has them.
\<close>

definition collect :: "string \<Rightarrow> json envelope \<Rightarrow> (string, json) dict \<Rightarrow> (string, json) dict" where
  "collect key res raw_data =
     (if success res
      then dict_set key (case data res of None \<Rightarrow> JNull | Some d \<Rightarrow> d) raw_data
      else raw_data)"

definition raw_data_of ::
  "json envelope \<Rightarrow> json envelope \<Rightarrow> json envelope \<Rightarrow> json envelope \<Rightarrow> json envelope
     \<Rightarrow> (string, json) dict" where
  "raw_data_of profile_res market_res financial_res analysis_res sentiment_res =
     collect ''sentiment'' sentiment_res
       (collect ''analysis'' analysis_res
         (collect ''financials'' financial_res
           (collect ''market_data'' market_res
             (collect ''company_profile'' profile_res []))))"

definition merge_stock_info ::
  "finnhub \<Rightarrow> string \<Rightarrow> string \<Rightarrow> string
     \<Rightarrow> json envelope \<Rightarrow> json envelope \<Rightarrow> json envelope \<Rightarrow> json envelope \<Rightarrow> json envelope
     \<Rightarrow> json envelope" where
  "merge_stock_info svc symb start_date end_date
       profile_res market_res financial_res analysis_res sentiment_res =
     format_response (query_time svc 5)
       (JObj (raw_data_of profile_res market_res financial_res analysis_res sentiment_res))
       (Some [(''symbol'', MStr symb), (''period'', period start_date end_date),
              (''generated_at'', MStr (generated_at svc))])"

definition get_all_stock_info ::
  "finnhub \<Rightarrow> string \<Rightarrow> string \<Rightarrow> string \<Rightarrow> error + json envelope" where
  "get_all_stock_info svc symb start_date end_date =
     (case get_company_profile svc 0 symb of
        Inl err \<Rightarrow> Inl err
      | Inr profile_res \<Rightarrow>
     (case get_market_data svc 1 symb start_date end_date of
        Inl err \<Rightarrow> Inl err
      | Inr market_res \<Rightarrow>
     (case get_financials svc 2 symb start_date end_date of
        Inl err \<Rightarrow> Inl err
      | Inr financial_res \<Rightarrow>
     (case get_estimates_and_analysis svc 3 symb start_date end_date of
        Inl err \<Rightarrow> Inl err
      | Inr analysis_res \<Rightarrow>
     (case get_sentiment_and_news svc 4 symb start_date end_date of
        Inl err \<Rightarrow> Inl err
      | Inr sentiment_res \<Rightarrow>
          Inr (merge_stock_info svc symb start_date end_date
                 profile_res market_res financial_res analysis_res sentiment_res))))))"















subsection \<open>Dates\<close>

text \<open>
  A Python \<open>str\<close> is a sequence of code points, more of them than a \<open>char\<close> has values:
  the text of a date is a list of natural numbers here, and \<open>code_points\<close> gives the one of a
  text of this theory.
\<close>

definition code_points :: "string \<Rightarrow> nat list" where
  "code_points s = map of_char s"

text \<open>
  \<open>datetime.strptime(date_str, "%Y-%m-%d")\<close>. The library compiles the format into the
  regular expression
  \<^verbatim>\<open>(?P<Y>\d\d\d\d)-(?P<m>1[0-2]|0[1-9]|[1-9])-(?P<d>3[0-1]|[1-2]\d|0[1-9]|[1-9]| [1-9])\<close>,
  matches it at the start of the string and raises \<open>ValueError\<close> when there is no match,
  when text remains after the match, or when the three numbers are not a date of the
  calendar (years 1 to 9999). A group of the expression is modelled by the list of its
  matches in the order in which the alternatives are tried, each with the text that
  follows; the match of the whole expression is the first way through.

  A class such as \<^verbatim>\<open>[1-9]\<close> holds the ASCII digits of its range. In the pattern of a \<open>str\<close>,
  \<^verbatim>\<open>\d\<close> matches every decimal digit of Unicode, and \<open>int\<close> reads the digits of every script.
  The digits of a script are ten consecutive code points from its zero; \<open>zeros\<close> lists the
  zeros of the scripts other than ASCII in the tables that the interpreter was built
  with (1632 for the Arabic-Indic digits, 65296 for the fullwidth digits, and so on).
\<close>

definition ascii_digit :: "nat \<Rightarrow> int option" where
  "ascii_digit c = (if 48 \<le> c \<and> c \<le> 57 then Some (int c - 48) else None)"

definition decimal :: "nat list \<Rightarrow> nat \<Rightarrow> int option" where
  "decimal zeros c =
     (case find (\<lambda>z. z \<le> c \<and> c < z + 10) (48 # zeros) of
        None \<Rightarrow> None
      | Some z \<Rightarrow> Some (int c - int z))"

fun year_alts :: "nat list \<Rightarrow> nat list \<Rightarrow> (int \<times> nat list) list" where
  "year_alts zeros (a # b # c # d # rest) =
     (case decimal zeros a of None \<Rightarrow> [] | Some p \<Rightarrow>
      (case decimal zeros b of None \<Rightarrow> [] | Some q \<Rightarrow>
      (case decimal zeros c of None \<Rightarrow> [] | Some r \<Rightarrow>
      (case decimal zeros d of None \<Rightarrow> [] | Some s \<Rightarrow>
         [(1000 * p + 100 * q + 10 * r + s, rest)]))))"
| "year_alts zeros _ = []"

text \<open>Two digits, each of its class, that satisfy \<open>ok\<close>; one ASCII digit from 1 to 9; a
  dash.\<close>

definition two ::
  "(nat \<Rightarrow> int option) \<Rightarrow> (nat \<Rightarrow> int option) \<Rightarrow> (int \<Rightarrow> int \<Rightarrow> bool) \<Rightarrow> nat list
     \<Rightarrow> (int \<times> nat list) list" where
  "two first second ok s =
     (case s of
        a # b # rest \<Rightarrow>
          (case first a of None \<Rightarrow> [] | Some p \<Rightarrow>
           (case second b of None \<Rightarrow> [] | Some q \<Rightarrow>
              if ok p q then [(10 * p + q, rest)] else []))
      | _ \<Rightarrow> [])"

definition one :: "nat list \<Rightarrow> (int \<times> nat list) list" where
  "one s =
     (case s of
        a # rest \<Rightarrow>
          (case ascii_digit a of Some p \<Rightarrow> if 1 \<le> p then [(p, rest)] else [] | None \<Rightarrow> [])
      | [] \<Rightarrow> [])"

definition dash :: "nat list \<Rightarrow> nat list list" where
  "dash s = (case s of a # rest \<Rightarrow> if a = 45 then [rest] else [] | [] \<Rightarrow> [])"

definition month_alts :: "nat list \<Rightarrow> (int \<times> nat list) list" where
  "month_alts s =
     two ascii_digit ascii_digit (\<lambda>p q. p = 1 \<and> q \<le> 2) s
     @ two ascii_digit ascii_digit (\<lambda>p q. p = 0 \<and> 1 \<le> q) s @ one s"

definition day_alts :: "nat list \<Rightarrow> nat list \<Rightarrow> (int \<times> nat list) list" where
  "day_alts zeros s =
     two ascii_digit ascii_digit (\<lambda>p q. p = 3 \<and> q \<le> 1) s
     @ two ascii_digit (decimal zeros) (\<lambda>p q. 1 \<le> p \<and> p \<le> 2) s
     @ two ascii_digit ascii_digit (\<lambda>p q. p = 0 \<and> 1 \<le> q) s @ one s
     @ (case s of a # rest \<Rightarrow> if a = 32 then one rest else [] | [] \<Rightarrow> [])"

definition regex_match :: "nat list \<Rightarrow> nat list \<Rightarrow> (int \<times> int \<times> int \<times> nat list) list" where
  "regex_match zeros s =
     [(y, m, d, r5). (y, r1) \<leftarrow> year_alts zeros s, r2 \<leftarrow> dash r1, (m, r3) \<leftarrow> month_alts r2,
                     r4 \<leftarrow> dash r3, (d, r5) \<leftarrow> day_alts zeros r4]"

text \<open>The calendar of \<open>datetime\<close>: \<open>_is_leap\<close>, \<open>_days_in_month\<close>, \<open>_days_before_year\<close>,
  \<open>_days_before_month\<close> and \<open>_ymd2ord\<close>, the number of the day counted from 0001-01-01 as
  day 1.\<close>

definition is_leap :: "int \<Rightarrow> bool" where
  "is_leap year \<longleftrightarrow> year mod 4 = 0 \<and> (year mod 100 \<noteq> 0 \<or> year mod 400 = 0)"

definition DAYS_IN_MONTH :: "int list" where
  "DAYS_IN_MONTH = [31, 28, 31, 30, 31, 30, 31, 31, 30, 31, 30, 31]"

definition days_in_month :: "int \<Rightarrow> int \<Rightarrow> int" where
  "days_in_month year month =
     (if month = 2 \<and> is_leap year then 29 else DAYS_IN_MONTH ! nat (month - 1))"

definition days_before_year :: "int \<Rightarrow> int" where
  "days_before_year year =
     (let y = year - 1 in y * 365 + y div 4 - y div 100 + y div 400)"

definition days_before_month :: "int \<Rightarrow> int \<Rightarrow> int" where
  "days_before_month year month =
     sum_list (take (nat (month - 1)) DAYS_IN_MONTH) + (if month > 2 \<and> is_leap year then 1 else 0)"

definition ymd2ord :: "int \<Rightarrow> int \<Rightarrow> int \<Rightarrow> int" where
  "ymd2ord year month day = days_before_year year + days_before_month year month + day"

text \<open>\<open>Inl msg\<close>: \<open>strptime\<close> raises \<open>ValueError(msg)\<close>; \<open>Inr\<close>: the date it returns, at
  midnight.\<close>

definition strptime :: "nat list \<Rightarrow> nat list \<Rightarrow> string + int \<times> int \<times> int" where
  "strptime zeros s =
     (case regex_match zeros s of
        [] \<Rightarrow> Inl ''time data does not match format''
      | (y, m, d, rest) # _ \<Rightarrow>
          if rest \<noteq> [] then Inl ''unconverted data remains''
          else if y < 1 then Inl ''year 0 is out of range''
          else if d > days_in_month y m then Inl ''day is out of range for month''
          else Inr (y, m, d))"

text \<open>\<open>dt.replace(tzinfo=timezone.utc).timestamp()\<close> of a date and a time of day, as the
  integer that \<open>int\<close> makes of it: the seconds since 1970-01-01, which is day 719163.\<close>

definition timestamp :: "int \<Rightarrow> int \<Rightarrow> int \<Rightarrow> int \<Rightarrow> int \<Rightarrow> int \<Rightarrow> int" where
  "timestamp year month day hour minute second =
     (ymd2ord year month day - 719163) * 86400 + hour * 3600 + minute * 60 + second"

definition date_to_timestamp :: "nat list \<Rightarrow> nat list \<Rightarrow> bool \<Rightarrow> int" where
  "date_to_timestamp zeros date_str end_of_day =
     (case strptime zeros date_str of
        Inl msg \<Rightarrow> 0
      | Inr (y, m, d) \<Rightarrow>
          if end_of_day then timestamp y m d 23 59 59 else timestamp y m d 0 0 0)"

section \<open>Notions used in the statements, and sample inputs\<close>

text \<open>The directory that a lookup works on: what \<open>_get_stock_basic\<close> hands back, no rows
  when it hands back \<open>None\<close>.\<close>

definition directory :: "env \<Rightarrow> world \<Rightarrow> DirectoryEntry list" where
  "directory e w = (case fst (get_stock_basic e w) of None \<Rightarrow> [] | Some df \<Rightarrow> df)"

text \<open>The code of the first row whose name is exactly \<open>n\<close>.\<close>

definition first_code :: "DirectoryEntry list \<Rightarrow> string \<Rightarrow> string option" where
  "first_code df n =
     (case filter (\<lambda>r. name r = n) df of [] \<Rightarrow> None | r # _ \<Rightarrow> Some (ts_code r))"

text \<open>The snapshot in the cache file of the directory, whatever its age; whether that
  file is a record younger than 24 hours; and the two together with a payload that has
  rows.\<close>

definition snapshot :: "world \<Rightarrow> DirectoryEntry list option" where
  "snapshot w =
     (case disk w ''stock_basic'' of
        Some (CacheRecord t (Some rows)) \<Rightarrow> Some rows
      | _ \<Rightarrow> None)"

definition within_window :: "env \<Rightarrow> world \<Rightarrow> bool" where
  "within_window e w \<longleftrightarrow>
     (case disk w ''stock_basic'' of
        Some (CacheRecord t _) \<Rightarrow> time e (length (calls w)) - t < 24 * 60 * 60
      | _ \<Rightarrow> False)"

definition cache_hit :: "env \<Rightarrow> world \<Rightarrow> bool" where
  "cache_hit e w \<longleftrightarrow> within_window e w \<and> snapshot w \<noteq> None \<and> snapshot w \<noteq> Some []"

text \<open>
  The order of a ranking on a column: a row with a null in the column may follow any row
  and precedes only such rows; two numbers, or two texts, stand in the requested
  direction. \<open>mixed\<close>: the column holds a number and a text.
\<close>

fun rank_le :: "bool \<Rightarrow> pyval \<Rightarrow> pyval \<Rightarrow> bool" where
  "rank_le ascending _ VNull = True"
| "rank_le ascending (VNum x) (VNum y) = (if ascending then x \<le> y else y \<le> x)"
| "rank_le ascending (VStr s) (VStr t) = (if ascending then s \<le> t else t \<le> s)"
| "rank_le ascending _ _ = False"

definition ranked :: "string \<Rightarrow> bool \<Rightarrow> py_record \<Rightarrow> py_record \<Rightarrow> bool" where
  "ranked by ascending a b \<longleftrightarrow> rank_le ascending (cell_of a by) (cell_of b by)"

definition mixed :: "string \<Rightarrow> py_record list \<Rightarrow> bool" where
  "mixed by df \<longleftrightarrow>
     list_ex (\<lambda>r. is_num (cell_of r by)) df \<and> list_ex (\<lambda>r. is_str (cell_of r by)) df"

text \<open>The category whose key is \<open>key\<close> was fetched and its envelope reports success.\<close>

definition category_success :: "finnhub \<Rightarrow> string \<Rightarrow> string \<Rightarrow> string \<Rightarrow> string \<Rightarrow> bool" where
  "category_success svc symb start_date end_date key \<longleftrightarrow>
     (key = ''company_profile'' \<and> (\<exists>r. get_company_profile svc 0 symb = Inr r \<and> success r))
   \<or> (key = ''market_data'' \<and> (\<exists>r. get_market_data svc 1 symb start_date end_date = Inr r \<and> success r))
   \<or> (key = ''financials'' \<and> (\<exists>r. get_financials svc 2 symb start_date end_date = Inr r \<and> success r))
   \<or> (key = ''analysis'' \<and> (\<exists>r. get_estimates_and_analysis svc 3 symb start_date end_date = Inr r \<and> success r))
   \<or> (key = ''sentiment'' \<and> (\<exists>r. get_sentiment_and_news svc 4 symb start_date end_date = Inr r \<and> success r))"

text \<open>An envelope carries a key in its metadata, or carries it with a given value.\<close>

definition carries :: "string \<Rightarrow> 'd envelope \<Rightarrow> bool" where
  "carries key r \<longleftrightarrow>
     (case metadata r of None \<Rightarrow> False | Some md \<Rightarrow> key \<in> set (dict_keys md))"







text \<open>
  Written dates. \<open>iso_date\<close> is the form YYYY-MM-DD of a date in ASCII digits;
  \<open>yyyy_mm_dd\<close> says that a text is that form of a date of the calendar (years 1 to
  9999). \<open>digit_forms\<close> are the code points that are a digit of a given value in some
  script. \<open>renderings\<close> are the ways of writing a date with a year of four digits of any
  scripts, a month in ASCII digits that may drop its leading zero, and a day in ASCII
  digits that may drop its leading zero or have a space for it, or, from the 10th to the
  29th, whose second digit is of any script. \<open>next_day\<close> is the day after.
\<close>

definition show_digit :: "int \<Rightarrow> nat" where
  "show_digit v = 48 + nat v"

definition pad2 :: "int \<Rightarrow> nat list" where
  "pad2 v = [show_digit (v div 10), show_digit (v mod 10)]"

definition pad4 :: "int \<Rightarrow> nat list" where
  "pad4 v =
     [show_digit (v div 1000), show_digit (v div 100 mod 10), show_digit (v div 10 mod 10),
      show_digit (v mod 10)]"

definition iso_date :: "int \<Rightarrow> int \<Rightarrow> int \<Rightarrow> nat list" where
  "iso_date y m d = pad4 y @ [45] @ pad2 m @ [45] @ pad2 d"

definition calendar_date :: "int \<Rightarrow> int \<Rightarrow> int \<Rightarrow> bool" where
  "calendar_date y m d \<longleftrightarrow>
     1 \<le> y \<and> y \<le> 9999 \<and> 1 \<le> m \<and> m \<le> 12 \<and> 1 \<le> d \<and> d \<le> days_in_month y m"

definition number2 :: "nat \<Rightarrow> nat \<Rightarrow> int option" where
  "number2 a b =
     (case ascii_digit a of None \<Rightarrow> None | Some p \<Rightarrow>
      (case ascii_digit b of None \<Rightarrow> None | Some q \<Rightarrow> Some (10 * p + q)))"

definition yyyy_mm_dd :: "nat list \<Rightarrow> bool" where
  "yyyy_mm_dd s \<longleftrightarrow>
     (case s of
        [y1, y2, y3, y4, h1, m1, m2, h2, d1, d2] \<Rightarrow>
          h1 = 45 \<and> h2 = 45 \<and>
          (case number2 y1 y2 of None \<Rightarrow> False | Some c \<Rightarrow>
           (case number2 y3 y4 of None \<Rightarrow> False | Some y \<Rightarrow>
           (case number2 m1 m2 of None \<Rightarrow> False | Some m \<Rightarrow>
           (case number2 d1 d2 of None \<Rightarrow> False | Some d \<Rightarrow>
              calendar_date (100 * c + y) m d))))
      | _ \<Rightarrow> False)"

definition digit_forms :: "nat list \<Rightarrow> int \<Rightarrow> nat list" where
  "digit_forms zeros v =
     filter (\<lambda>c. decimal zeros c = Some v) (map (\<lambda>z. z + nat v) (48 # zeros))"

definition year_forms :: "nat list \<Rightarrow> int \<Rightarrow> nat list list" where
  "year_forms zeros y =
     [[a, b, c, d]. a \<leftarrow> digit_forms zeros (y div 1000),
                    b \<leftarrow> digit_forms zeros (y div 100 mod 10),
                    c \<leftarrow> digit_forms zeros (y div 10 mod 10),
                    d \<leftarrow> digit_forms zeros (y mod 10)]"

definition month_forms :: "int \<Rightarrow> nat list list" where
  "month_forms m = pad2 m # (if m \<le> 9 then [[show_digit m]] else [])"

definition day_forms :: "nat list \<Rightarrow> int \<Rightarrow> nat list list" where
  "day_forms zeros d =
     (if d \<le> 9 then [pad2 d, [show_digit d], [32, show_digit d]]
      else if d \<le> 29 then [[show_digit (d div 10), b]. b \<leftarrow> digit_forms zeros (d mod 10)]
      else [pad2 d])"

definition renderings :: "nat list \<Rightarrow> int \<Rightarrow> int \<Rightarrow> int \<Rightarrow> nat list list" where
  "renderings zeros y m d =
     [ys @ [45] @ ms @ [45] @ ds.
        ys \<leftarrow> year_forms zeros y, ms \<leftarrow> month_forms m, ds \<leftarrow> day_forms zeros d]"

definition next_day :: "int \<Rightarrow> int \<Rightarrow> int \<Rightarrow> int \<times> int \<times> int" where
  "next_day y m d =
     (if d < days_in_month y m then (y, m, d + 1)
      else if m < 12 then (y, m + 1, 1)
      else (y + 1, 1, 1))"

text \<open>The alternatives that fail at the dash which has to follow them.\<close>

definition dead :: "(int \<times> nat list) list \<Rightarrow> bool" where
  "dead xs \<longleftrightarrow> list_all (\<lambda>(v, r). dash r = []) xs"

text \<open>A service without token whose provider raises on every call, and an empty cache
  directory before any call.\<close>

definition quiet_env :: env where
  "quiet_env =
     \<lparr>pro = False, TUSHARE_AVAILABLE = True,
      time = (\<lambda>_. 1700000000), now_text = (\<lambda>_. ''2023-11-14 22:13:20''),
      disk_write = (\<lambda>_. Written),
      stock_basic = (\<lambda>_. Raises ''timeout''),
      rt_min = (\<lambda>_ _ _. Raises ''timeout''),
      realtime_quote = (\<lambda>_ _ _. Raises ''timeout''),
      realtime_tick = (\<lambda>_ _ _. Raises ''timeout''),
      realtime_list = (\<lambda>_ _. Raises ''timeout''),
      minute_record = (\<lambda>_ _. Inr []),
      quote_record = (\<lambda>_. Inr []),
      tick_record = (\<lambda>_. Inr []),
      type_error_text =
        (\<lambda>_ _ _. '''<' not supported between instances of 'str' and 'float'' @ [CHR 0x27])\<rparr>"

definition fresh_world :: world where
  "fresh_world = \<lparr>disk = Map.empty, calls = []\<rparr>"

text \<open>A cache directory whose file for the symbol table was written at the given time
  with the given payload.\<close>

definition cached_world :: "real \<Rightarrow> DirectoryEntry list option \<Rightarrow> world" where
  "cached_world t p = \<lparr>disk = [''stock_basic'' \<mapsto> CacheRecord t p], calls = []\<rparr>"

definition pudong :: DirectoryEntry where
  "pudong = \<lparr>ts_code = ''600000.SH'', symbol = ''600000'', name = ''Pudong Bank''\<rparr>"

text \<open>A market snapshot of four stocks; the third has no change and no P/E, the second a
  dash for its P/E.\<close>

definition ranking_frame :: frame where
  "ranking_frame =
     [[(''ts_code'', Str ''A''), (''pct_change'', Num 1), (''pe'', Num 10)],
      [(''ts_code'', Str ''B''), (''pct_change'', Num 3), (''pe'', Str ''-'')],
      [(''ts_code'', Str ''D''), (''pct_change'', NaN), (''pe'', NaN)],
      [(''ts_code'', Str ''C''), (''pct_change'', Num 2), (''pe'', Num 7)]]"

definition ranking_env :: env where
  "ranking_env = quiet_env\<lparr>realtime_list := (\<lambda>_ _. Returns ranking_frame)\<rparr>"

text \<open>A service whose provider raises on every call.\<close>

definition down_client :: client where
  "down_client =
     \<lparr>company_profile2 = (\<lambda>_. Raises ''401''), company_peers = (\<lambda>_. Raises ''401''),
      quote = (\<lambda>_. Raises ''401''), company_basic_financials = (\<lambda>_ _. Raises ''401''),
      company_earnings = (\<lambda>_ _. Raises ''401''), stock_dividends = (\<lambda>_ _ _. Raises ''401''),
      recommendation_trends = (\<lambda>_. Raises ''401''),
      company_news = (\<lambda>_ _ _. Raises ''401''),
      transcripts = (\<lambda>_. Raises ''401''), transcripts_list = (\<lambda>_. Raises ''401''),
      company_executive = (\<lambda>_. Raises ''401''), filings = (\<lambda>_ _ _. Raises ''401''),
      stock_insider_transactions = (\<lambda>_ _ _. Raises ''401''),
      ownership = (\<lambda>_ _. Raises ''401''), fund_ownership = (\<lambda>_ _. Raises ''401''),
      news_sentiment = (\<lambda>_. Raises ''401''), stock_social_sentiment = (\<lambda>_. Raises ''401''),
      stock_insider_sentiment = (\<lambda>_ _ _. Raises ''401''),
      upgrade_downgrade = (\<lambda>_ _ _. Raises ''401''),
      pattern_recognition = (\<lambda>_ _. Raises ''401''),
      support_resistance = (\<lambda>_ _. Raises ''401''),
      aggregate_indicator = (\<lambda>_ _. Raises ''401'')\<rparr>"

definition down_service :: finnhub where
  "down_service =
     \<lparr>client = Some down_client, query_time = (\<lambda>_. ''2024-02-01 09:30:00''),
      generated_at = ''2024-02-01T09:30:00.000000''\<rparr>"

section \<open>Properties\<close>

subsection \<open>Dictionaries\<close>

lemma dict_get_dict_set:
  "dict_get (dict_set k v d) k' = (if k' = k then Some v else dict_get d k')"
  by (induction d) (auto simp: dict_get_def)

lemma dict_keys_dict_set:
  "dict_keys (dict_set k v d) =
     (if k \<in> set (dict_keys d) then dict_keys d else dict_keys d @ [k])"
  by (induction d) (force simp: dict_keys_def)+

lemma distinct_dict_set: "distinct (dict_keys d) \<Longrightarrow> distinct (dict_keys (dict_set k v d))"
  by (simp add: dict_keys_dict_set)

lemma dict_get_keys: "dict_get d k \<noteq> None \<longleftrightarrow> k \<in> set (dict_keys d)"
  by (simp add: dict_get_def dict_keys_def map_of_eq_None_iff)

subsection \<open>Resolving names to codes\<close>

lemma fold_names_get:
  "dict_get (fold (\<lambda>n name_map.
                   case filter (\<lambda>r. name r = n) df of
                     [] \<Rightarrow> name_map
                   | r # _ \<Rightarrow> dict_set n (ts_code r) name_map) names acc) k
   = (if k \<in> set names \<and> first_code df k \<noteq> None then first_code df k else dict_get acc k)"
  by (induction names arbitrary: acc)
     (auto simp: dict_get_dict_set first_code_def split: list.splits)

lemma first_code_None: "first_code df k = None \<longleftrightarrow> k \<notin> name ` set df"
proof -
  have "first_code df k = None \<longleftrightarrow> filter (\<lambda>r. name r = k) df = []"
    by (simp add: first_code_def split: list.splits)
  also have "\<dots> \<longleftrightarrow> k \<notin> name ` set df"
    by (auto simp: filter_empty_conv)
  finally show ?thesis .
qed

lemma get_code_by_name_get:
  "dict_get (fst (get_code_by_name e w names)) k =
     (if k \<in> set names then first_code (directory e w) k else None)"
proof (cases "get_stock_basic e w")
  case (Pair df w1)
  show ?thesis
  proof (cases df)
    case None
    with Pair show ?thesis
      by (simp add: get_code_by_name_def directory_def first_code_def dict_get_def)
  next
    case (Some rows)
    show ?thesis
    proof (cases "rows = []")
      case True
      with Pair Some show ?thesis
        by (simp add: get_code_by_name_def directory_def first_code_def dict_get_def)
    next
      case False
      with Pair Some have "dict_get (fst (get_code_by_name e w names)) k =
          (if k \<in> set names \<and> first_code rows k \<noteq> None then first_code rows k
           else dict_get [] k)"
        by (simp add: get_code_by_name_def fold_names_get)
      moreover have "directory e w = rows"
        using Pair Some by (simp add: directory_def)
      ultimately show ?thesis
        by (auto simp: dict_get_def)
    qed
  qed
qed

text \<open>
  C8. For every list of names and every state of the service, the cache directory and the
  provider, \<open>_get_code_by_name\<close> returns a dictionary (there is no raising branch) whose
  keys lie among the input names; a name is a key exactly when some row of the directory
  has exactly that name (string equality, so case matters), and it is mapped to the code
  of the first such row; a name without a match is not a key.
\<close>

theorem get_code_by_name_exact_match:
  "set (dict_keys (fst (get_code_by_name e w names))) \<subseteq> set names
   \<and> (k \<in> set (dict_keys (fst (get_code_by_name e w names))) \<longleftrightarrow>
        k \<in> set names \<and> (\<exists>r \<in> set (directory e w). name r = k))
   \<and> dict_get (fst (get_code_by_name e w names)) k =
        (if k \<in> set names then first_code (directory e w) k else None)"
proof -
  have mem: "n \<in> set (dict_keys (fst (get_code_by_name e w names))) \<longleftrightarrow>
        n \<in> set names \<and> n \<in> name ` set (directory e w)" for n
    using get_code_by_name_get [of e w names n]
      dict_get_keys [of "fst (get_code_by_name e w names)" n]
      first_code_None [of "directory e w" n]
    by (auto split: if_splits)
  show ?thesis using mem get_code_by_name_get by auto
qed

theorem get_code_by_name_exact_match_witness:
  "dict_keys (fst (get_code_by_name
       (quiet_env\<lparr>pro := True, stock_basic := (\<lambda>_. Returns [pudong])\<rparr>)
       fresh_world [''Pudong Bank'', ''Unknown Co''])) = [''Pudong Bank'']
   \<and> (\<exists>r \<in> set (directory (quiet_env\<lparr>pro := True, stock_basic := (\<lambda>_. Returns [pudong])\<rparr>)
                    fresh_world). name r = ''Pudong Bank'')
   \<and> \<not> (\<exists>r \<in> set (directory (quiet_env\<lparr>pro := True, stock_basic := (\<lambda>_. Returns [pudong])\<rparr>)
                    fresh_world). name r = ''Unknown Co'')
   \<and> dict_get (fst (get_code_by_name
       (quiet_env\<lparr>pro := True, stock_basic := (\<lambda>_. Returns [pudong])\<rparr>)
       fresh_world [''Pudong Bank'', ''Unknown Co''])) ''Pudong Bank'' = Some ''600000.SH''"
  using get_code_by_name_exact_match
    [of "quiet_env\<lparr>pro := True, stock_basic := (\<lambda>_. Returns [pudong])\<rparr>"
        fresh_world "[''Pudong Bank'', ''Unknown Co'']" "''Pudong Bank''"]
  by (simp add: get_code_by_name_def get_stock_basic_def load_cache_def save_cache_def
        upstream_def quiet_env_def fresh_world_def pudong_def directory_def first_code_def
        dict_keys_def dict_get_def)

subsection \<open>Upstream calls of the directory fetch\<close>

lemma calls_get_stock_basic:
  "calls (snd (get_stock_basic e w)) = calls w \<or>
   calls (snd (get_stock_basic e w)) = calls w @ [StockBasic]"
  by (auto simp: get_stock_basic_def upstream_def save_cache_def Let_def
      split: option.splits list.splits outcome.splits write_outcome.splits)

lemma snd_get_code_by_name: "snd (get_code_by_name e w names) = snd (get_stock_basic e w)"
  by (auto simp: get_code_by_name_def split: prod.splits option.splits)

lemma snd_get_name_by_code: "snd (get_name_by_code e w codes) = snd (get_stock_basic e w)"
  by (auto simp: get_name_by_code_def split: prod.splits option.splits)

subsection \<open>Frequencies\<close>

lemma upper_FREQ_OPTIONS: "g \<in> set FREQ_OPTIONS \<Longrightarrow> upper g = g"
  by (auto simp: FREQ_OPTIONS_def upper_def upper_char_def)

lemma validate_freq_upper:
  "upper freq \<in> set FREQ_OPTIONS \<Longrightarrow> validate_freq (upper freq) = validate_freq freq"
  by (simp add: validate_freq_def upper_FREQ_OPTIONS)

lemma get_realtime_minute_invalid:
  "upper freq \<notin> set FREQ_OPTIONS \<Longrightarrow> pro e \<Longrightarrow>
     get_realtime_minute e w ts_codes freq = (failure (invalid_freq_message freq), w)"
  by (simp add: get_realtime_minute_def validate_freq_def Let_def)

lemma get_realtime_minute_calls:
  assumes "upper freq \<in> set FREQ_OPTIONS" and "pro e"
  shows "RtMin ts_codes (upper freq) \<in> set (calls (snd (get_realtime_minute e w ts_codes freq)))"
proof -
  let ?w1 = "upstream (RtMin ts_codes (upper freq)) w"
  have w1: "RtMin ts_codes (upper freq) \<in> set (calls ?w1)"
    by (simp add: upstream_def)
  have w2: "RtMin ts_codes (upper freq) \<in> set (calls (snd (get_name_by_code e ?w1 codes)))"
    for codes
    using calls_get_stock_basic [of e ?w1] w1 by (auto simp: snd_get_name_by_code)
  show ?thesis
    using assms w1 w2 [of "split CHR '','' ts_codes"]
    by (auto simp: get_realtime_minute_def validate_freq_def Let_def
        split: outcome.splits prod.splits sum.splits)
qed

lemma attach_not_found_failure: "attach_not_found nf (failure m) = failure m"
  by (simp add: attach_not_found_def failure_def)

lemma get_minute_by_name_invalid:
  assumes "upper freq \<notin> set FREQ_OPTIONS"
  shows "get_minute_by_name e w stock_names freq =
     (if \<not> pro e then (failure ''Tushare not initialized'', w)
      else if names_list stock_names = [] then (failure ''No stock names provided'', w)
      else if fst (get_code_by_name e w (names_list stock_names)) = []
      then (failure (''Could not find codes for: '' @ stock_names), snd (get_stock_basic e w))
      else (failure (invalid_freq_message freq), snd (get_stock_basic e w)))"
  using assms snd_get_code_by_name [of e w "names_list stock_names"]
  by (auto simp: get_minute_by_name_def get_realtime_minute_invalid attach_not_found_failure
      Let_def split: prod.splits)

text \<open>
  C10. Frequency validation ignores case: a string whose upper-case form is one of 1MIN,
  5MIN, 15MIN, 30MIN, 60MIN is accepted and normalised to that form, and a minute-bar
  request made with it is the request made with the normal form: on an initialised service
  it reaches the provider's \<open>rt_min\<close> with the upper-case frequency. A string whose
  upper-case form is outside the set is rejected with the \<open>Invalid freq\<close> error, and only
  those are.
\<close>

theorem validate_freq_case_insensitive:
  "(upper freq \<in> set FREQ_OPTIONS \<longrightarrow>
      validate_freq freq = Inr (upper freq)
      \<and> get_realtime_minute e w ts_codes freq = get_realtime_minute e w ts_codes (upper freq)
      \<and> (pro e \<longrightarrow>
           RtMin ts_codes (upper freq) \<in> set (calls (snd (get_realtime_minute e w ts_codes freq)))))
   \<and> (upper freq \<notin> set FREQ_OPTIONS \<longrightarrow> validate_freq freq = Inl (invalid_freq_message freq))"
proof -
  have "get_realtime_minute e w ts_codes freq = get_realtime_minute e w ts_codes (upper freq)"
    if "upper freq \<in> set FREQ_OPTIONS"
    using validate_freq_upper [OF that] by (simp add: get_realtime_minute_def)
  then show ?thesis
    using get_realtime_minute_calls [of freq e ts_codes w]
    by (auto simp: validate_freq_def)
qed

theorem validate_freq_case_insensitive_witness:
  "validate_freq ''5min'' = Inr ''5MIN''
   \<and> calls (snd (get_realtime_minute (quiet_env\<lparr>pro := True\<rparr>) fresh_world ''600000.SH'' ''5min''))
       = [RtMin ''600000.SH'' ''5MIN'']
   \<and> validate_freq ''2min'' =
       Inl ''Invalid freq: 2min. Must be one of ['1MIN', '5MIN', '15MIN', '30MIN', '60MIN']''"
  using validate_freq_case_insensitive
          [of "''5min''" "quiet_env\<lparr>pro := True\<rparr>" fresh_world "''600000.SH''"]
        validate_freq_case_insensitive
          [of "''2min''" "quiet_env\<lparr>pro := True\<rparr>" fresh_world "''600000.SH''"]
  by (simp add: upper_def upper_char_def FREQ_OPTIONS_def FREQ_OPTIONS_repr_def
        invalid_freq_message_def get_realtime_minute_def validate_freq_def upstream_def
        quiet_env_def fresh_world_def)

text \<open>
  C6, as amended. For every minute-bar request by name whose frequency is outside the
  enumerated set, the operation returns (it has no raising branch) an envelope with
  \<open>success = False\<close> and no data, and never calls the provider's minute-bar endpoint: the
  calls made are those of the name resolution, that is none or one listing of the symbol
  table. The error is the \<open>Invalid freq\<close> message exactly when the service is initialised
  and at least one name resolves; the frequency is validated only then, after the names.
  The fetch by code, on an initialised service, answers an invalid frequency with that
  message and no upstream call at all.
\<close>

theorem get_minute_by_name_invalid_freq:
  assumes "upper freq \<notin> set FREQ_OPTIONS"
  shows "\<not> success (fst (get_minute_by_name e w stock_names freq))
     \<and> data (fst (get_minute_by_name e w stock_names freq)) = None
     \<and> (calls (snd (get_minute_by_name e w stock_names freq)) = calls w
        \<or> calls (snd (get_minute_by_name e w stock_names freq)) = calls w @ [StockBasic])
     \<and> (error (fst (get_minute_by_name e w stock_names freq)) = Some (invalid_freq_message freq)
        \<longleftrightarrow> pro e \<and> fst (get_code_by_name e w (names_list stock_names)) \<noteq> [])
     \<and> (pro e \<longrightarrow>
          get_realtime_minute e w ts_codes freq = (failure (invalid_freq_message freq), w))"
proof -
  have names: "fst (get_code_by_name e w []) = []"
    by (simp add: get_code_by_name_def split: prod.splits option.splits)
  have msg: "invalid_freq_message freq \<noteq> ''Tushare not initialized''"
    "invalid_freq_message freq \<noteq> ''No stock names provided''"
    "invalid_freq_message freq \<noteq> ''Could not find codes for: '' @ stock_names"
    by (simp_all add: invalid_freq_message_def)
  show ?thesis
    using calls_get_stock_basic [of e w] names msg
    by (auto simp: get_minute_by_name_invalid [OF assms] get_realtime_minute_invalid [OF assms]
        failure_def)
qed

theorem get_minute_by_name_invalid_freq_witness:
  "upper ''2MIN'' \<notin> set FREQ_OPTIONS
   \<and> get_minute_by_name (quiet_env\<lparr>pro := True, stock_basic := (\<lambda>_. Returns [pudong])\<rparr>)
        (fresh_world\<lparr>disk := [''stock_basic'' \<mapsto> CacheRecord 1699999000 (Some [pudong])]\<rparr>)
        ''Pudong Bank'' ''2MIN''
     = (failure ''Invalid freq: 2MIN. Must be one of ['1MIN', '5MIN', '15MIN', '30MIN', '60MIN']'',
        fresh_world\<lparr>disk := [''stock_basic'' \<mapsto> CacheRecord 1699999000 (Some [pudong])]\<rparr>)"
proof -
  have h: "upper ''2MIN'' \<notin> set FREQ_OPTIONS"
    by (simp add: upper_def upper_char_def FREQ_OPTIONS_def)
  show ?thesis
    using h get_minute_by_name_invalid_freq [OF h,
        of "quiet_env\<lparr>pro := True, stock_basic := (\<lambda>_. Returns [pudong])\<rparr>"
           "fresh_world\<lparr>disk := [''stock_basic'' \<mapsto> CacheRecord 1699999000 (Some [pudong])]\<rparr>"
           "''Pudong Bank''" "''600000.SH''"]
    by (simp add: get_minute_by_name_def get_realtime_minute_def validate_freq_def
          invalid_freq_message_def FREQ_OPTIONS_repr_def FREQ_OPTIONS_def upper_def upper_char_def
          names_list_def strip_def isspace_def get_code_by_name_def get_stock_basic_def
          load_cache_def cache_expire_hours_def attach_not_found_def failure_def
          dict_keys_def dict_values_def quiet_env_def fresh_world_def pudong_def)
qed

text \<open>
  C6 as the claim states it fails: on an initialised service with an empty cache, a
  request for an unknown name at frequency 2MIN is answered with the name-resolution
  error, not with \<open>Invalid freq\<close>, and a request for a known name, although answered with
  \<open>Invalid freq\<close>, has listed the symbol table upstream on the way.
\<close>

theorem get_minute_by_name_invalid_freq_counterexample:
  "upper ''2MIN'' \<notin> set FREQ_OPTIONS
   \<and> fst (get_minute_by_name (quiet_env\<lparr>pro := True, stock_basic := (\<lambda>_. Returns [pudong])\<rparr>)
        fresh_world ''Unknown Co'' ''2MIN'')
     = failure ''Could not find codes for: Unknown Co''
   \<and> calls (snd (get_minute_by_name
        (quiet_env\<lparr>pro := True, stock_basic := (\<lambda>_. Returns [pudong])\<rparr>)
        fresh_world ''Unknown Co'' ''2MIN'')) = [StockBasic]
   \<and> fst (get_minute_by_name (quiet_env\<lparr>pro := True, stock_basic := (\<lambda>_. Returns [pudong])\<rparr>)
        fresh_world ''Pudong Bank'' ''2MIN'')
     = failure ''Invalid freq: 2MIN. Must be one of ['1MIN', '5MIN', '15MIN', '30MIN', '60MIN']''
   \<and> calls (snd (get_minute_by_name
        (quiet_env\<lparr>pro := True, stock_basic := (\<lambda>_. Returns [pudong])\<rparr>)
        fresh_world ''Pudong Bank'' ''2MIN'')) = [StockBasic]"
  by (simp add: get_minute_by_name_def get_realtime_minute_def validate_freq_def
        invalid_freq_message_def FREQ_OPTIONS_repr_def FREQ_OPTIONS_def upper_def upper_char_def
        names_list_def strip_def isspace_def get_code_by_name_def get_stock_basic_def
        load_cache_def save_cache_def upstream_def attach_not_found_def failure_def
        dict_keys_def dict_values_def quiet_env_def fresh_world_def pudong_def)

text \<open>
  C7. For every input that holds more than 50 names (non-blank pieces between commas),
  \<open>get_realtime_by_name\<close> answers with the failure envelope
  \<open>Maximum 50 stocks per request\<close> and leaves the world as it was: no upstream call is
  logged, neither the listing of the symbol table nor a quote, and the cache is untouched.
\<close>

theorem get_realtime_by_name_limit:
  assumes "length (names_list stock_names) > 50"
  shows "get_realtime_by_name e w stock_names = (failure ''Maximum 50 stocks per request'', w)"
proof -
  from assms have "names_list stock_names \<noteq> []" by auto
  with assms show ?thesis by (simp add: get_realtime_by_name_def)
qed

theorem get_realtime_by_name_limit_witness:
  "length (names_list (concat (replicate 51 ''a,''))) = 51
   \<and> get_realtime_by_name (quiet_env\<lparr>pro := True, stock_basic := (\<lambda>_. Returns [pudong])\<rparr>)
        fresh_world (concat (replicate 51 ''a,''))
     = (failure ''Maximum 50 stocks per request'', fresh_world)"
proof -
  have n: "length (names_list (concat (replicate 51 ''a,''))) = 51"
    by code_simp
  then have h: "length (names_list (concat (replicate 51 ''a,''))) > 50"
    by simp
  show ?thesis
    using n get_realtime_by_name_limit [OF h] by simp
qed

subsection \<open>The directory cache\<close>

lemma load_cache_hit:
  "(\<exists>r rs. load_cache e w ''stock_basic'' = Some (r # rs)) \<longleftrightarrow> cache_hit e w"
  by (auto simp: load_cache_def cache_hit_def within_window_def snapshot_def
      cache_expire_hours_def neq_Nil_conv split: option.splits cache_file.splits)

lemma load_cache_snapshot:
  "load_cache e w ''stock_basic'' = Some rows \<Longrightarrow> snapshot w = Some rows"
  by (auto simp: load_cache_def snapshot_def split: option.splits cache_file.splits if_splits)

lemma get_stock_basic_hit:
  assumes "pro e" "cache_hit e w"
  shows "get_stock_basic e w = (snapshot w, w)"
proof -
  from assms(2) obtain r rs where l: "load_cache e w ''stock_basic'' = Some (r # rs)"
    using load_cache_hit by blast
  then have "snapshot w = Some (r # rs)" by (rule load_cache_snapshot)
  with l assms(1) show ?thesis by (simp add: get_stock_basic_def)
qed

lemma get_stock_basic_miss:
  assumes "pro e" "\<not> cache_hit e w"
  shows "get_stock_basic e w =
     (case stock_basic e (length (calls w)) of
        Returns (r # rs) \<Rightarrow>
          (Some (r # rs), save_cache e (upstream StockBasic w) ''stock_basic'' (r # rs))
      | _ \<Rightarrow> (None, upstream StockBasic w))"
proof -
  from assms(2) have "\<nexists>r rs. load_cache e w ''stock_basic'' = Some (r # rs)"
    using load_cache_hit by blast
  with assms(1) show ?thesis
    by (auto simp: get_stock_basic_def Let_def split: option.splits list.splits outcome.splits)
qed

text \<open>
  C3, as amended. On an initialised service: when the cache file of the directory is a
  record younger than 24 hours whose payload has rows, the fetch returns that payload and
  touches nothing. Otherwise it lists the symbols upstream, once. When the listing comes
  back with rows, these are returned and, when the file can be written, stored under the
  key \<open>stock_basic\<close> with the time of writing. When the listing raises or comes back
  without rows, the fetch returns \<open>None\<close> and leaves the cache as it was: an older
  snapshot is not returned.
\<close>

theorem get_stock_basic_cache:
  assumes "pro e"
  shows "(cache_hit e w \<longrightarrow> get_stock_basic e w = (snapshot w, w))
     \<and> (\<not> cache_hit e w \<longrightarrow>
          calls (snd (get_stock_basic e w)) = calls w @ [StockBasic]
          \<and> (\<forall>df. stock_basic e (length (calls w)) = Returns df \<and> df \<noteq> [] \<longrightarrow>
                fst (get_stock_basic e w) = Some df
                \<and> (disk_write e (Suc (length (calls w))) = Written \<longrightarrow>
                     disk (snd (get_stock_basic e w)) ''stock_basic'' =
                       Some (CacheRecord (time e (Suc (length (calls w)))) (Some df))))
          \<and> ((\<forall>df. stock_basic e (length (calls w)) = Returns df \<longrightarrow> df = []) \<longrightarrow>
                fst (get_stock_basic e w) = None
                \<and> disk (snd (get_stock_basic e w)) = disk w))"
proof (cases "cache_hit e w")
  case True
  with assms show ?thesis by (simp add: get_stock_basic_hit)
next
  case False
  have "calls (snd (get_stock_basic e w)) = calls w @ [StockBasic]"
    by (auto simp: get_stock_basic_miss [OF assms False] upstream_def save_cache_def
        split: outcome.splits list.splits write_outcome.splits)
  moreover have "fst (get_stock_basic e w) = Some df
      \<and> (disk_write e (Suc (length (calls w))) = Written \<longrightarrow>
           disk (snd (get_stock_basic e w)) ''stock_basic'' =
             Some (CacheRecord (time e (Suc (length (calls w)))) (Some df)))"
    if "stock_basic e (length (calls w)) = Returns df" "df \<noteq> []" for df
    using that
    by (cases df) (simp_all add: get_stock_basic_miss [OF assms False] upstream_def save_cache_def)
  moreover have "fst (get_stock_basic e w) = None \<and> disk (snd (get_stock_basic e w)) = disk w"
    if "\<forall>df. stock_basic e (length (calls w)) = Returns df \<longrightarrow> df = []"
    using that
    by (auto simp: get_stock_basic_miss [OF assms False] upstream_def
        split: outcome.splits list.splits)
  ultimately show ?thesis using False by blast
qed

theorem get_stock_basic_cache_witness:
  "cache_hit (quiet_env\<lparr>pro := True\<rparr>) (cached_world 1699999000 (Some [pudong]))
   \<and> get_stock_basic (quiet_env\<lparr>pro := True\<rparr>) (cached_world 1699999000 (Some [pudong]))
       = (Some [pudong], cached_world 1699999000 (Some [pudong]))
   \<and> \<not> cache_hit (quiet_env\<lparr>pro := True, stock_basic := (\<lambda>_. Returns [pudong])\<rparr>)
         (cached_world 1699900000 (Some []))
   \<and> fst (get_stock_basic (quiet_env\<lparr>pro := True, stock_basic := (\<lambda>_. Returns [pudong])\<rparr>)
         (cached_world 1699900000 (Some []))) = Some [pudong]
   \<and> disk (snd (get_stock_basic (quiet_env\<lparr>pro := True, stock_basic := (\<lambda>_. Returns [pudong])\<rparr>)
         (cached_world 1699900000 (Some [])))) ''stock_basic''
       = Some (CacheRecord 1700000000 (Some [pudong]))
   \<and> fst (get_stock_basic (quiet_env\<lparr>pro := True\<rparr>) fresh_world) = None"
  using get_stock_basic_cache
          [of "quiet_env\<lparr>pro := True\<rparr>" "cached_world 1699999000 (Some [pudong])"]
        get_stock_basic_cache
          [of "quiet_env\<lparr>pro := True, stock_basic := (\<lambda>_. Returns [pudong])\<rparr>"
              "cached_world 1699900000 (Some [])"]
        get_stock_basic_cache [of "quiet_env\<lparr>pro := True\<rparr>" fresh_world]
  by (simp add: cache_hit_def within_window_def snapshot_def cached_world_def fresh_world_def
        quiet_env_def)

text \<open>
  C3 as the claim states it fails in its last part: with a snapshot in the cache that is
  older than 24 hours and a provider that raises, the fetch returns \<open>None\<close>, not the
  snapshot.
\<close>

theorem get_stock_basic_cache_counterexample:
  "snapshot (cached_world 1699900000 (Some [pudong])) = Some [pudong]
   \<and> \<not> within_window (quiet_env\<lparr>pro := True\<rparr>) (cached_world 1699900000 (Some [pudong]))
   \<and> stock_basic (quiet_env\<lparr>pro := True\<rparr>) 0 = Raises ''timeout''
   \<and> fst (get_stock_basic (quiet_env\<lparr>pro := True\<rparr>) (cached_world 1699900000 (Some [pudong])))
       = None"
  by (simp add: get_stock_basic_def load_cache_def cache_expire_hours_def upstream_def
        snapshot_def within_window_def cached_world_def quiet_env_def)

text \<open>
  C4, as amended. A directory fetch on an initialised service makes no upstream call when
  the cache file is a record younger than 24 hours whose payload has rows, and exactly one
  call, the listing of the symbols, in every other state of the cache, in particular
  whenever the record is 24 hours old or older. A service without provider client makes
  no upstream call in any state of the cache.
\<close>

theorem get_stock_basic_calls:
  "calls (snd (get_stock_basic e w)) =
     (if pro e \<and> \<not> cache_hit e w then calls w @ [StockBasic] else calls w)
   \<and> (pro e \<and> \<not> within_window e w \<longrightarrow>
        calls (snd (get_stock_basic e w)) = calls w @ [StockBasic])"
proof -
  have "calls (snd (get_stock_basic e w)) =
     (if pro e \<and> \<not> cache_hit e w then calls w @ [StockBasic] else calls w)"
  proof (cases "pro e")
    case False
    then show ?thesis by (simp add: get_stock_basic_def)
  next
    case True
    show ?thesis
    proof (cases "cache_hit e w")
      case True
      with \<open>pro e\<close> show ?thesis by (simp add: get_stock_basic_hit)
    next
      case False
      with \<open>pro e\<close> show ?thesis
        by (auto simp: get_stock_basic_miss upstream_def save_cache_def
            split: outcome.splits list.splits write_outcome.splits)
    qed
  qed
  then show ?thesis by (simp add: cache_hit_def)
qed

theorem get_stock_basic_calls_witness:
  "within_window (quiet_env\<lparr>pro := True\<rparr>) (cached_world 1699999000 (Some [pudong]))
   \<and> calls (snd (get_stock_basic (quiet_env\<lparr>pro := True\<rparr>)
        (cached_world 1699999000 (Some [pudong])))) = []
   \<and> \<not> within_window (quiet_env\<lparr>pro := True\<rparr>) (cached_world 1699900000 (Some [pudong]))
   \<and> calls (snd (get_stock_basic (quiet_env\<lparr>pro := True\<rparr>)
        (cached_world 1699900000 (Some [pudong])))) = [StockBasic]"
  using get_stock_basic_calls
          [of "quiet_env\<lparr>pro := True\<rparr>" "cached_world 1699999000 (Some [pudong])"]
        get_stock_basic_calls
          [of "quiet_env\<lparr>pro := True\<rparr>" "cached_world 1699900000 (Some [pudong])"]
  by (simp add: cache_hit_def within_window_def snapshot_def cached_world_def quiet_env_def)

text \<open>
  C4 as the claim states it fails on both sides: a service without token makes no upstream
  call although the cached record is older than 24 hours, and an initialised service
  makes one although the cached record is younger than 24 hours, when its payload is the
  empty list.
\<close>

theorem get_stock_basic_calls_counterexample:
  "\<not> within_window quiet_env (cached_world 1699900000 (Some [pudong]))
   \<and> calls (snd (get_stock_basic quiet_env (cached_world 1699900000 (Some [pudong])))) = []
   \<and> within_window (quiet_env\<lparr>pro := True\<rparr>) (cached_world 1699999000 (Some []))
   \<and> calls (snd (get_stock_basic (quiet_env\<lparr>pro := True\<rparr>)
        (cached_world 1699999000 (Some [])))) = [StockBasic]"
  by (simp add: get_stock_basic_def load_cache_def cache_expire_hours_def upstream_def
        within_window_def cached_world_def quiet_env_def)

subsection \<open>The ranking\<close>

lemma order_by_sorted:
  "sorted_wrt (\<lambda>a b. if ascending then key a \<le> key b else key b \<le> key a) (order_by ascending key xs)"
proof (cases ascending)
  case True
  have "sorted (map key (sort_key key xs))" by simp
  then show ?thesis using True by (simp add: order_by_def sorted_wrt_map)
next
  case False
  have "sorted (map key (sort_key key (rev xs)))" by simp
  then have "sorted_wrt (\<lambda>a b. key a \<le> key b) (sort_key key (rev xs))"
    by (simp add: sorted_wrt_map)
  then show ?thesis using False by (simp add: order_by_def sorted_wrt_rev)
qed

lemma set_order_by: "set (order_by ascending key xs) = set xs"
  by (simp add: order_by_def)

lemma mset_order_by: "mset (order_by ascending key xs) = mset xs"
  by (simp add: order_by_def)

lemma length_order_by: "length (order_by ascending key xs) = length xs"
  by (simp add: order_by_def)

lemma sort_values_Inl:
  "sort_values t by ascending df = Inl msg \<longleftrightarrow> mixed by df \<and> msg = t"
  by (auto simp: sort_values_def mixed_def Let_def list_ex_iff)

lemma sort_values_ranked:
  assumes "sort_values t by ascending df = Inr out"
  shows "sorted_wrt (ranked by ascending) out"
proof -
  let ?present = "filter (\<lambda>r. cell_of r by \<noteq> VNull) df"
  let ?missing = "filter (\<lambda>r. cell_of r by = VNull) df"
  have miss: "ranked by ascending a b" if "b \<in> set ?missing" for a b
    using that by (simp add: ranked_def)
  have m: "sorted_wrt (ranked by ascending) ?missing"
    by (rule sorted_wrt_mono_rel [of _ "\<lambda>_ _. True"]) (use miss in auto)
  show ?thesis
  proof (cases "list_ex (\<lambda>r. is_str (cell_of r by)) ?present")
    case True
    with assms have nonum: "\<not> list_ex (\<lambda>r. is_num (cell_of r by)) ?present"
      and out: "out = order_by ascending (\<lambda>r. str_of (cell_of r by)) ?present @ ?missing"
      by (auto simp: sort_values_def Let_def split: if_splits)
    have strs: "is_str (cell_of r by)" if "r \<in> set ?present" for r
      using that nonum by (cases "cell_of r by") (auto simp: list_ex_iff)
    have "sorted_wrt (ranked by ascending) (order_by ascending (\<lambda>r. str_of (cell_of r by)) ?present)"
    proof (rule sorted_wrt_mono_rel [OF _ order_by_sorted])
      fix a b
      assume "a \<in> set (order_by ascending (\<lambda>r. str_of (cell_of r by)) ?present)"
        "b \<in> set (order_by ascending (\<lambda>r. str_of (cell_of r by)) ?present)"
        "if ascending then str_of (cell_of a by) \<le> str_of (cell_of b by)
          else str_of (cell_of b by) \<le> str_of (cell_of a by)"
      then show "ranked by ascending a b"
        using strs [of a] strs [of b]
        by (cases "cell_of a by"; cases "cell_of b by") (auto simp: set_order_by ranked_def)
    qed
    with m miss show ?thesis by (auto simp: out sorted_wrt_append)
  next
    case False
    with assms have out: "out = order_by ascending (\<lambda>r. num_of (cell_of r by)) ?present @ ?missing"
      by (auto simp: sort_values_def Let_def split: if_splits)
    have nums: "is_num (cell_of r by)" if "r \<in> set ?present" for r
      using that False by (cases "cell_of r by") (auto simp: list_ex_iff)
    have "sorted_wrt (ranked by ascending) (order_by ascending (\<lambda>r. num_of (cell_of r by)) ?present)"
    proof (rule sorted_wrt_mono_rel [OF _ order_by_sorted])
      fix a b
      assume "a \<in> set (order_by ascending (\<lambda>r. num_of (cell_of r by)) ?present)"
        "b \<in> set (order_by ascending (\<lambda>r. num_of (cell_of r by)) ?present)"
        "if ascending then num_of (cell_of a by) \<le> num_of (cell_of b by)
          else num_of (cell_of b by) \<le> num_of (cell_of a by)"
      then show "ranked by ascending a b"
        using nums [of a] nums [of b]
        by (cases "cell_of a by"; cases "cell_of b by") (auto simp: set_order_by ranked_def)
    qed
    with m miss show ?thesis by (auto simp: out sorted_wrt_append)
  qed
qed

lemma sort_values_mset:
  assumes "sort_values t by ascending df = Inr out"
  shows "mset out = mset df"
proof -
  have "mset (filter (\<lambda>r. cell_of r by \<noteq> VNull) df) + mset (filter (\<lambda>r. cell_of r by = VNull) df) = mset df"
    by (induction df) auto
  with assms show ?thesis
    by (auto simp: sort_values_def Let_def mset_order_by split: if_splits)
qed


lemma length_head_nonneg: "0 \<le> n \<Longrightarrow> int (length (head n xs)) \<le> n"
  by (simp add: head_def)

lemma length_head_neg: "n < 0 \<Longrightarrow> length (head n xs) = length xs - nat (- n)"
  by (simp add: head_def)

lemma sorted_wrt_head: "sorted_wrt P xs \<Longrightarrow> sorted_wrt P (head n xs)"
  by (simp add: head_def)

lemma length_DataFrame: "length (DataFrame records) = length records"
  by (simp add: DataFrame_def)

lemma get_realtime_list_top_unfold:
  assumes "get_realtime_list e w src = (snap, w1)" "success snap" "data snap = Some records"
  shows "fst (get_realtime_list_top e w src top_n sort_by ascending) =
     (if records = [] then snap
      else case (if sort_by \<in> set (columns_of records)
                 then sort_values (type_error_text e sort_by ascending (DataFrame records))
                        sort_by ascending (DataFrame records)
                 else Inr (DataFrame records)) of
             Inl msg \<Rightarrow> failure msg
           | Inr df \<Rightarrow> succeeded (head top_n df)
                [(''src'', MStr src), (''top_n'', MInt top_n),
                 (''sort_by'', MStr sort_by), (''ascending'', MBool ascending),
                 (''count'', MInt (int (length (head top_n df)))),
                 (''total_stocks'', MInt (int (length df))),
                 (''query_time'', MStr (now_text e (length (calls w1))))])"
  using assms by (simp add: get_realtime_list_top_def Let_def split: sum.splits)

lemma get_realtime_list_ranking_env: "get_realtime_list ranking_env fresh_world ''dc'' =
   (succeeded (map clean_record ranking_frame)
      [(''src'', MStr ''dc''), (''count'', MInt 4), (''query_time'', MStr ''2023-11-14 22:13:20'')],
    \<lparr>disk = Map.empty, calls = [RealtimeList ''dc'']\<rparr>)"
  by (simp add: get_realtime_list_def ranking_env_def quiet_env_def fresh_world_def upstream_def
      df_empty_def ranking_frame_def)

text \<open>
  C5, as amended. Let the full-market snapshot be a success. With no record in it, the
  snapshot itself is the answer. Otherwise: when the sort field is not a column, the
  answer is a success whose data are the records in their order, cut by \<open>head\<close>; when it
  is a column that holds both numbers and texts, the sort raises and the answer is the
  failure envelope of that exception; when it is any other column, the answer is a
  success whose data are cut by \<open>head\<close> from a rearrangement of the records that is
  ordered by the field in the requested direction, nulls last. Whatever data are
  returned, for \<open>top_n \<ge> 0\<close> they are at most \<open>top_n\<close> records; for a negative \<open>top_n\<close>
  they are all records but the last \<open>-top_n\<close>; and they are ordered by the sort field when
  that is a column.
\<close>

theorem get_realtime_list_top_ranking:
  fixes e w src top_n sort_by ascending
  defines "r \<equiv> fst (get_realtime_list_top e w src top_n sort_by ascending)"
  assumes snap: "get_realtime_list e w src = (snap, w1)" "success snap" "data snap = Some records"
  shows "(records = [] \<longrightarrow> r = snap)
     \<and> (records \<noteq> [] \<and> sort_by \<notin> set (columns_of records) \<longrightarrow>
          success r \<and> data r = Some (head top_n (DataFrame records)))
     \<and> (records \<noteq> [] \<and> sort_by \<in> set (columns_of records)
          \<and> mixed sort_by (DataFrame records) \<longrightarrow> (\<exists>msg. r = failure msg))
     \<and> (records \<noteq> [] \<and> sort_by \<in> set (columns_of records)
          \<and> \<not> mixed sort_by (DataFrame records) \<longrightarrow>
          success r \<and> (\<exists>df. data r = Some (head top_n df) \<and> mset df = mset (DataFrame records)
                           \<and> sorted_wrt (ranked sort_by ascending) df))
     \<and> (\<forall>out. data r = Some out \<longrightarrow>
          (0 \<le> top_n \<longrightarrow> int (length out) \<le> top_n)
          \<and> (top_n < 0 \<and> records \<noteq> [] \<longrightarrow> length out = length records - nat (- top_n))
          \<and> (sort_by \<in> set (columns_of records) \<longrightarrow> sorted_wrt (ranked sort_by ascending) out))"
proof (cases "records = []")
  case True
  with snap show ?thesis
    unfolding r_def by (simp add: get_realtime_list_top_unfold [OF snap])
next
  case ne: False
  show ?thesis
  proof (cases "sort_by \<in> set (columns_of records)")
    case False
    with ne show ?thesis
      unfolding r_def
      by (simp add: get_realtime_list_top_unfold [OF snap] succeeded_def length_head_nonneg
          length_head_neg length_DataFrame)
  next
    case col: True
    show ?thesis
    proof (cases "sort_values (type_error_text e sort_by ascending (DataFrame records))
                    sort_by ascending (DataFrame records)")
      case (Inl msg)
      then have "mixed sort_by (DataFrame records)"
        by (simp add: sort_values_Inl)
      with ne col Inl show ?thesis
        unfolding r_def
        by (simp add: get_realtime_list_top_unfold [OF snap] failure_def)
    next
      case (Inr df)
      then have nm: "\<not> mixed sort_by (DataFrame records)"
        using sort_values_Inl
          [of "type_error_text e sort_by ascending (DataFrame records)" sort_by ascending
              "DataFrame records"]
        by auto
      have ms: "mset df = mset (DataFrame records)"
        using Inr by (rule sort_values_mset)
      then have len: "length df = length records"
        using length_DataFrame [of records] mset_eq_length by fastforce
      have so: "sorted_wrt (ranked sort_by ascending) df"
        using Inr by (rule sort_values_ranked)
      have r: "r = succeeded (head top_n df)
                [(''src'', MStr src), (''top_n'', MInt top_n),
                 (''sort_by'', MStr sort_by), (''ascending'', MBool ascending),
                 (''count'', MInt (int (length (head top_n df)))),
                 (''total_stocks'', MInt (int (length df))),
                 (''query_time'', MStr (now_text e (length (calls w1))))]"
        unfolding r_def using ne col Inr
        by (simp add: get_realtime_list_top_unfold [OF snap])
      have "\<exists>df'. data r = Some (head top_n df') \<and> mset df' = mset (DataFrame records)
                           \<and> sorted_wrt (ranked sort_by ascending) df'"
        using ms so by (auto simp: r succeeded_def)
      then show ?thesis
        using ne col nm len so
        by (simp add: r succeeded_def length_head_nonneg length_head_neg sorted_wrt_head)
    qed
  qed
qed

theorem get_realtime_list_top_ranking_witness:
  "success (fst (get_realtime_list ranking_env fresh_world ''dc''))
   \<and> data (fst (get_realtime_list_top ranking_env fresh_world ''dc'' 2 ''pct_change'' False))
     = Some [[(''ts_code'', VStr ''B''), (''pct_change'', VNum 3), (''pe'', VStr ''-'')],
             [(''ts_code'', VStr ''C''), (''pct_change'', VNum 2), (''pe'', VNum 7)]]
   \<and> sorted_wrt (ranked ''pct_change'' False)
        [[(''ts_code'', VStr ''B''), (''pct_change'', VNum 3), (''pe'', VStr ''-'')],
         [(''ts_code'', VStr ''C''), (''pct_change'', VNum 2), (''pe'', VNum 7)]]
   \<and> data (fst (get_realtime_list_top ranking_env fresh_world ''dc'' 2 ''volume'' False))
     = Some [[(''ts_code'', VStr ''A''), (''pct_change'', VNum 1), (''pe'', VNum 10)],
             [(''ts_code'', VStr ''B''), (''pct_change'', VNum 3), (''pe'', VStr ''-'')]]"
proof -
  have d: "data (fst (get_realtime_list_top ranking_env fresh_world ''dc'' 2 ''pct_change'' False))
     = Some [[(''ts_code'', VStr ''B''), (''pct_change'', VNum 3), (''pe'', VStr ''-'')],
             [(''ts_code'', VStr ''C''), (''pct_change'', VNum 2), (''pe'', VNum 7)]]"
    by (simp add: get_realtime_list_top_def get_realtime_list_def ranking_env_def quiet_env_def
        fresh_world_def upstream_def df_empty_def ranking_frame_def clean_record_def
        DataFrame_def columns_of_def dict_keys_def cell_of_def dict_get_def sort_values_def
        order_by_def sort_key_def head_def succeeded_def Let_def)
  have c: "''pct_change'' \<in> set (columns_of (map clean_record ranking_frame))"
       "''volume'' \<notin> set (columns_of (map clean_record ranking_frame))"
       "map clean_record ranking_frame \<noteq> []"
    by (simp_all add: ranking_frame_def clean_record_def columns_of_def dict_keys_def)
  have v: "head 2 (DataFrame (map clean_record ranking_frame))
     = [[(''ts_code'', VStr ''A''), (''pct_change'', VNum 1), (''pe'', VNum 10)],
        [(''ts_code'', VStr ''B''), (''pct_change'', VNum 3), (''pe'', VStr ''-'')]]"
    by (simp add: ranking_frame_def clean_record_def DataFrame_def columns_of_def dict_keys_def
        cell_of_def dict_get_def head_def)
  have p: "success (succeeded (map clean_record ranking_frame) m)"
       "data (succeeded (map clean_record ranking_frame) m) = Some (map clean_record ranking_frame)"
    for m
    by (simp_all add: succeeded_def)
  note t = get_realtime_list_top_ranking [OF get_realtime_list_ranking_env p]
  show ?thesis
    using d c v
      t [where top_n = 2 and sort_by = "''pct_change''" and ascending = False]
      t [where top_n = 2 and sort_by = "''volume''" and ascending = False]
    by (simp add: succeeded_def get_realtime_list_ranking_env)
qed

text \<open>
  C5 as the claim states it fails at a negative \<open>top_n\<close> and at a column of numbers and
  texts: of the four records of the snapshot, \<open>top_n = -1\<close> returns three, and the ranking
  by the P/E column, which holds a dash, returns no records but a failure envelope.
\<close>

theorem get_realtime_list_top_ranking_counterexample:
  "data (fst (get_realtime_list_top ranking_env fresh_world ''dc'' (- 1) ''pct_change'' False))
     = Some [[(''ts_code'', VStr ''B''), (''pct_change'', VNum 3), (''pe'', VStr ''-'')],
             [(''ts_code'', VStr ''C''), (''pct_change'', VNum 2), (''pe'', VNum 7)],
             [(''ts_code'', VStr ''A''), (''pct_change'', VNum 1), (''pe'', VNum 10)]]
   \<and> \<not> success (fst (get_realtime_list_top ranking_env fresh_world ''dc'' 10 ''pe'' False))
   \<and> data (fst (get_realtime_list_top ranking_env fresh_world ''dc'' 10 ''pe'' False)) = None"
  by (simp add: get_realtime_list_top_def get_realtime_list_def ranking_env_def quiet_env_def
      fresh_world_def upstream_def df_empty_def ranking_frame_def clean_record_def
      DataFrame_def columns_of_def dict_keys_def cell_of_def dict_get_def sort_values_def
      order_by_def sort_key_def head_def succeeded_def failure_def Let_def)

subsection \<open>The aggregator\<close>

lemma set_dict_keys_collect:
  "set (dict_keys (collect key res raw)) =
     (if success res then insert key (set (dict_keys raw)) else set (dict_keys raw))"
  by (auto simp: collect_def dict_keys_dict_set)

lemma keys_raw_data_of:
  "k \<in> set (dict_keys (raw_data_of p m f a s)) \<longleftrightarrow>
     (k = ''company_profile'' \<and> success p) \<or> (k = ''market_data'' \<and> success m)
     \<or> (k = ''financials'' \<and> success f) \<or> (k = ''analysis'' \<and> success a)
     \<or> (k = ''sentiment'' \<and> success s)"
proof -
  have "dict_keys ([] :: (string, json) dict) = []" by (simp add: dict_keys_def)
  then show ?thesis by (auto simp: raw_data_of_def set_dict_keys_collect)
qed

lemma raw_data_of_all_fail:
  "\<not> success p \<Longrightarrow> \<not> success m \<Longrightarrow> \<not> success f \<Longrightarrow> \<not> success a \<Longrightarrow> \<not> success s \<Longrightarrow>
     raw_data_of p m f a s = []"
  by (simp add: raw_data_of_def collect_def)

lemma merge_stock_info_success:
  "success (merge_stock_info svc symb sd ed p m f a s)
   \<and> data (merge_stock_info svc symb sd ed p m f a s) = Some (JObj (raw_data_of p m f a s))
   \<and> found (merge_stock_info svc symb sd ed p m f a s) = Some (raw_data_of p m f a s \<noteq> [])"
  by (simp add: merge_stock_info_def format_response_def Let_def)

lemma get_all_stock_info_Inr:
  "get_all_stock_info svc symb sd ed = Inr env \<longleftrightarrow>
     (\<exists>p m f a s. get_company_profile svc 0 symb = Inr p
        \<and> get_market_data svc 1 symb sd ed = Inr m
        \<and> get_financials svc 2 symb sd ed = Inr f
        \<and> get_estimates_and_analysis svc 3 symb sd ed = Inr a
        \<and> get_sentiment_and_news svc 4 symb sd ed = Inr s
        \<and> env = merge_stock_info svc symb sd ed p m f a s)"
  by (auto simp: get_all_stock_info_def split: sum.splits)

lemma get_all_stock_info_total:
  "(\<exists>env. get_all_stock_info svc symb sd ed = Inr env) \<longleftrightarrow> client svc \<noteq> None"
  by (auto simp: get_all_stock_info_def get_company_profile_def get_market_data_def
      get_financials_def get_estimates_and_analysis_def get_sentiment_and_news_def Let_def
      split: sum.splits option.splits)
text \<open>
  C1. The envelope that the aggregator builds from the five category envelopes is a
  success whose data is the merged map, and a category key is in that map if and only if
  the envelope of that category reports success; with five failed categories the map is
  empty and the envelope still a success. Whenever \<open>_get_all_stock_info\<close> returns, its
  envelope is a success and its data has a category key if and only if the fetcher of
  that category returned an envelope with success; it returns whenever the service has
  its client object, and raises otherwise.
\<close>

theorem get_all_stock_info_categories:
  "(success (merge_stock_info svc symb sd ed p m f a s)
     \<and> data (merge_stock_info svc symb sd ed p m f a s) = Some (JObj (raw_data_of p m f a s))
     \<and> (k \<in> set (dict_keys (raw_data_of p m f a s)) \<longleftrightarrow>
          (k = ''company_profile'' \<and> success p) \<or> (k = ''market_data'' \<and> success m)
          \<or> (k = ''financials'' \<and> success f) \<or> (k = ''analysis'' \<and> success a)
          \<or> (k = ''sentiment'' \<and> success s))
     \<and> (\<not> success p \<and> \<not> success m \<and> \<not> success f \<and> \<not> success a \<and> \<not> success s
          \<longrightarrow> raw_data_of p m f a s = []))
   \<and> (get_all_stock_info svc symb sd ed = Inr env \<longrightarrow>
        success env
        \<and> (\<exists>raw. data env = Some (JObj raw)
              \<and> (k \<in> set (dict_keys raw) \<longleftrightarrow> category_success svc symb sd ed k)))
   \<and> ((\<exists>env. get_all_stock_info svc symb sd ed = Inr env) \<longleftrightarrow> client svc \<noteq> None)"
proof -
  have "success env \<and> (\<exists>raw. data env = Some (JObj raw)
              \<and> (k \<in> set (dict_keys raw) \<longleftrightarrow> category_success svc symb sd ed k))"
    if "get_all_stock_info svc symb sd ed = Inr env"
  proof -
    from that obtain p m f a s where
      fs: "get_company_profile svc 0 symb = Inr p"
        "get_market_data svc 1 symb sd ed = Inr m"
        "get_financials svc 2 symb sd ed = Inr f"
        "get_estimates_and_analysis svc 3 symb sd ed = Inr a"
        "get_sentiment_and_news svc 4 symb sd ed = Inr s"
      and env: "env = merge_stock_info svc symb sd ed p m f a s"
      unfolding get_all_stock_info_Inr by blast
    have "k \<in> set (dict_keys (raw_data_of p m f a s)) \<longleftrightarrow> category_success svc symb sd ed k"
      using fs by (simp add: keys_raw_data_of category_success_def)
    then show ?thesis
      using merge_stock_info_success [of svc symb sd ed p m f a s] by (simp add: env)
  qed
  then show ?thesis
    using merge_stock_info_success [of svc symb sd ed p m f a s]
      keys_raw_data_of [of k p m f a s] raw_data_of_all_fail [of p m f a s]
      get_all_stock_info_total [of svc symb sd ed]
    by blast
qed

theorem get_all_stock_info_categories_witness:
  "raw_data_of (format_response ''t'' JNull None) (format_response ''t'' JNull None)
     (format_response ''t'' JNull None) (format_response ''t'' JNull None)
     (format_response ''t'' JNull None) = []
   \<and> success (merge_stock_info down_service ''AAPL'' ''2024-01-01'' ''2024-01-31''
        (format_response ''t'' JNull None) (format_response ''t'' JNull None)
        (format_response ''t'' JNull None) (format_response ''t'' JNull None)
        (format_response ''t'' JNull None))
   \<and> category_success down_service ''AAPL'' ''2024-01-01'' ''2024-01-31'' ''financials''
   \<and> (case get_all_stock_info down_service ''AAPL'' ''2024-01-01'' ''2024-01-31'' of
         Inl err \<Rightarrow> None | Inr env \<Rightarrow> data env)
     = Some (JObj
         [(''company_profile'', JObj [(''profile'', JNull), (''peers'', JNull)]),
          (''market_data'', JObj [(''quote'', JNull)]),
          (''financials'', JObj [(''basic_financials'', JNull), (''earnings_surprises'', JNull),
                                 (''dividends'', JNull)]),
          (''analysis'', JObj [(''recommendation_trends'', JNull)]),
          (''sentiment'', JObj [(''news'', JNull)])])"
proof -
  have f: "\<not> success (format_response ''t'' JNull None)"
    by (simp add: format_response_def)
  have c: "category_success down_service ''AAPL'' ''2024-01-01'' ''2024-01-31'' ''financials''"
    by (simp add: category_success_def get_financials_def format_response_def down_service_def)
  have d: "(case get_all_stock_info down_service ''AAPL'' ''2024-01-01'' ''2024-01-31'' of
         Inl err \<Rightarrow> None | Inr env \<Rightarrow> data env)
     = Some (JObj
         [(''company_profile'', JObj [(''profile'', JNull), (''peers'', JNull)]),
          (''market_data'', JObj [(''quote'', JNull)]),
          (''financials'', JObj [(''basic_financials'', JNull), (''earnings_surprises'', JNull),
                                 (''dividends'', JNull)]),
          (''analysis'', JObj [(''recommendation_trends'', JNull)]),
          (''sentiment'', JObj [(''news'', JNull)])])"
    by (simp add: get_all_stock_info_def get_company_profile_def get_market_data_def
        get_financials_def get_estimates_and_analysis_def get_sentiment_and_news_def
        safe_api_call_def down_service_def down_client_def merge_stock_info_def
        raw_data_of_def collect_def format_response_def)
  show ?thesis
    using f c d
      get_all_stock_info_categories
        [of down_service "''AAPL''" "''2024-01-01''" "''2024-01-31''"
            "format_response ''t'' JNull None" "format_response ''t'' JNull None"
            "format_response ''t'' JNull None" "format_response ''t'' JNull None"
            "format_response ''t'' JNull None" "''financials''"]
    by simp
qed

subsection \<open>Envelopes\<close>


lemma carries_succeeded: "carries key (succeeded d md) \<longleftrightarrow> key \<in> set (dict_keys md)"
  by (simp add: carries_def succeeded_def)


























subsection \<open>Dates\<close>

lemma ascii_digit_Some: "ascii_digit c = Some v \<Longrightarrow> 0 \<le> v \<and> v \<le> 9 \<and> c = show_digit v"
  by (auto simp: ascii_digit_def show_digit_def split: if_splits)

lemma ascii_digit_show: "0 \<le> v \<Longrightarrow> v \<le> 9 \<Longrightarrow> ascii_digit (show_digit v) = Some v"
  by (auto simp: ascii_digit_def show_digit_def)

lemma decimal_ascii: "ascii_digit c = Some v \<Longrightarrow> decimal zeros c = Some v"
  by (auto simp: ascii_digit_def decimal_def split: if_splits)

lemma decimal_show: "0 \<le> v \<Longrightarrow> v \<le> 9 \<Longrightarrow> decimal zeros (show_digit v) = Some v"
  by (simp add: decimal_ascii ascii_digit_show)

lemma decimal_Some:
  assumes "decimal zeros c = Some v"
  shows "0 \<le> v \<and> v \<le> 9 \<and> c \<in> set (digit_forms zeros v)"
proof -
  define xs where "xs = 48 # zeros"
  from assms obtain z where f: "find (\<lambda>z. z \<le> c \<and> c < z + 10) xs = Some z"
    and v: "v = int c - int z"
    by (auto simp: decimal_def xs_def split: option.splits)
  from f obtain i where i: "i < length xs" "xs ! i \<le> c \<and> c < xs ! i + 10" "z = xs ! i"
    unfolding find_Some_iff by blast
  from i(1,3) have z1: "z \<in> set xs" by simp
  from i(2,3) have z: "z \<le> c" "c < z + 10" by simp_all
  from z v have b: "0 \<le> v" "v \<le> 9" and c: "c = z + nat v" by auto
  from z1 have "z + nat v \<in> (\<lambda>z. z + nat v) ` set xs" by (rule imageI)
  with c assms have "c \<in> set (digit_forms zeros v)"
    unfolding digit_forms_def set_filter set_map xs_def by blast
  with b show ?thesis by simp
qed

lemma digit_forms_D: "c \<in> set (digit_forms zeros v) \<Longrightarrow> decimal zeros c = Some v"
  unfolding digit_forms_def set_filter by blast

lemma show_digit_form: "0 \<le> v \<Longrightarrow> v \<le> 9 \<Longrightarrow> show_digit v \<in> set (digit_forms zeros v)"
  using decimal_Some [OF decimal_show] by blast

lemma small_cases:
  "0 \<le> v \<Longrightarrow> v \<le> 9 \<Longrightarrow>
     v = 0 \<or> v = 1 \<or> v = 2 \<or> v = 3 \<or> v = 4 \<or> v = 5 \<or> v = 6 \<or> v = 7 \<or> v = 8 \<or> v = (9::int)"
  by arith

lemma split_div:
  fixes q r k :: int
  assumes "0 \<le> r" "r < k"
  shows "(k * q + r) div k = q" "(k * q + r) mod k = r"
  using assms by (simp_all add: div_pos_pos_trivial)

lemma digits_value:
  fixes a b c d :: int
  assumes "0 \<le> a" "a \<le> 9" "0 \<le> b" "b \<le> 9" "0 \<le> c" "c \<le> 9" "0 \<le> d" "d \<le> 9"
  defines "v \<equiv> 1000 * a + 100 * b + 10 * c + d"
  shows "v div 1000 = a" "v div 100 mod 10 = b" "v div 10 mod 10 = c" "v mod 10 = d"
proof -
  show "v div 1000 = a"
    using split_div(1) [of "100 * b + 10 * c + d" 1000 a] assms(1-8)
    by (simp add: v_def add.assoc)
  have "v div 100 = 10 * a + b"
    using split_div(1) [of "10 * c + d" 100 "10 * a + b"] assms(1-8)
    by (simp add: v_def algebra_simps)
  then show "v div 100 mod 10 = b"
    using split_div(2) [of b 10 a] assms(1-8) by simp
  have "v div 10 = 100 * a + 10 * b + c"
    using split_div(1) [of d 10 "100 * a + 10 * b + c"] assms(1-8)
    by (simp add: v_def algebra_simps)
  then show "v div 10 mod 10 = c"
    using split_div(2) [of c 10 "10 * a + b"] assms(1-8) by (simp add: algebra_simps)
  show "v mod 10 = d"
    using split_div(2) [of d 10 "100 * a + 10 * b + c"] assms(1-8)
    by (simp add: v_def algebra_simps)
qed

lemma pad4_digits:
  assumes "0 \<le> a" "a \<le> 9" "0 \<le> b" "b \<le> 9" "0 \<le> c" "c \<le> 9" "0 \<le> d" "d \<le> 9"
  shows "pad4 (1000 * a + 100 * b + 10 * c + d)
     = [show_digit a, show_digit b, show_digit c, show_digit d]"
  by (simp add: pad4_def digits_value [OF assms])

lemma pad2_digits:
  "0 \<le> p \<Longrightarrow> p \<le> 9 \<Longrightarrow> 0 \<le> q \<Longrightarrow> q \<le> 9 \<Longrightarrow> pad2 (10 * p + q) = [show_digit p, show_digit q]"
  using split_div [of q 10 p] by (simp add: pad2_def)

lemma year_alts_D:
  assumes "(y, r) \<in> set (year_alts zeros s)"
  shows "0 \<le> y \<and> y \<le> 9999 \<and> (\<exists>ys \<in> set (year_forms zeros y). s = ys @ r)"
proof (cases "(zeros, s)" rule: year_alts.cases)
  case (1 zs a b c d rest)
  with assms obtain p q u v where d: "decimal zeros a = Some p" "decimal zeros b = Some q"
    "decimal zeros c = Some u" "decimal zeros d = Some v"
    and y: "y = 1000 * p + 100 * q + 10 * u + v" and r: "r = rest"
    by (cases "decimal zeros a"; cases "decimal zeros b"; cases "decimal zeros c";
        cases "decimal zeros d") auto
  note b = decimal_Some [OF d(1)] decimal_Some [OF d(2)] decimal_Some [OF d(3)]
    decimal_Some [OF d(4)]
  have bs: "0 \<le> p" "p \<le> 9" "0 \<le> q" "q \<le> 9" "0 \<le> u" "u \<le> 9" "0 \<le> v" "v \<le> 9"
    using b by simp_all
  have "[a, b, c, d] \<in> set (year_forms zeros y)"
    using b by (auto simp: year_forms_def y digits_value [OF bs])
  moreover have "0 \<le> y \<and> y \<le> 9999" using bs y by arith
  ultimately show ?thesis using 1 r by auto
qed (use assms in auto)

lemma two_D:
  assumes "(v, r) \<in> set (two first second ok s)"
  shows "\<exists>a b p q. s = a # b # r \<and> first a = Some p \<and> second b = Some q \<and> ok p q
            \<and> v = 10 * p + q"
proof -
  from assms obtain a b rest where s: "s = a # b # rest"
    by (cases s; cases "tl s") (auto simp: two_def)
  with assms obtain p q where "first a = Some p" "second b = Some q"
    "ok p q" "v = 10 * p + q" "r = rest"
    by (cases "first a"; cases "second b") (auto simp: two_def split: if_splits)
  with s show ?thesis by blast
qed

lemma two_ascii_D:
  assumes "(v, r) \<in> set (two ascii_digit ascii_digit ok s)"
  shows "\<exists>p q. ok p q \<and> 0 \<le> p \<and> p \<le> 9 \<and> 0 \<le> q \<and> q \<le> 9 \<and> v = 10 * p + q
            \<and> s = pad2 v @ r"
proof -
  from two_D [OF assms] obtain a b p q where s: "s = a # b # r"
    and d: "ascii_digit a = Some p" "ascii_digit b = Some q"
    and ok: "ok p q" and v: "v = 10 * p + q"
    by blast
  note b = ascii_digit_Some [OF d(1)] ascii_digit_Some [OF d(2)]
  have "pad2 v = [a, b]" using b by (simp add: v pad2_digits)
  with b ok v s show ?thesis by auto
qed

lemma one_D:
  assumes "(v, r) \<in> set (one s)"
  shows "1 \<le> v \<and> v \<le> 9 \<and> s = show_digit v # r"
proof -
  from assms obtain a rest where s: "s = a # rest"
    by (cases s) (auto simp: one_def)
  with assms have "ascii_digit a = Some v" "1 \<le> v" "r = rest"
    by (cases "ascii_digit a"; auto simp: one_def split: if_splits)+
  with ascii_digit_Some [of a v] s show ?thesis by simp
qed

lemma dash_D: "r \<in> set (dash s) \<Longrightarrow> s = 45 # r"
  by (auto simp: dash_def split: list.splits if_splits)

lemma month_alts_D:
  assumes "(m, r) \<in> set (month_alts s)"
  shows "1 \<le> m \<and> m \<le> 12 \<and> (\<exists>ms \<in> set (month_forms m). s = ms @ r)"
proof -
  from assms consider
      "(m, r) \<in> set (two ascii_digit ascii_digit (\<lambda>p q. p = 1 \<and> q \<le> 2) s)"
    | "(m, r) \<in> set (two ascii_digit ascii_digit (\<lambda>p q. p = 0 \<and> 1 \<le> q) s)"
    | "(m, r) \<in> set (one s)"
    by (auto simp: month_alts_def)
  then show ?thesis
  proof cases
    case 1
    from two_ascii_D [OF this] show ?thesis by (auto simp: month_forms_def)
  next
    case 2
    from two_ascii_D [OF this] show ?thesis by (auto simp: month_forms_def)
  next
    case 3
    from one_D [OF this] show ?thesis by (simp add: month_forms_def)
  qed
qed

lemma day_alts_D:
  assumes "(d, r) \<in> set (day_alts zeros s)"
  shows "1 \<le> d \<and> d \<le> 31 \<and> (\<exists>ds \<in> set (day_forms zeros d). s = ds @ r)"
proof -
  from assms consider
      "(d, r) \<in> set (two ascii_digit ascii_digit (\<lambda>p q. p = 3 \<and> q \<le> 1) s)"
    | "(d, r) \<in> set (two ascii_digit (decimal zeros) (\<lambda>p q. 1 \<le> p \<and> p \<le> 2) s)"
    | "(d, r) \<in> set (two ascii_digit ascii_digit (\<lambda>p q. p = 0 \<and> 1 \<le> q) s)"
    | "(d, r) \<in> set (one s)"
    | rest where "s = 32 # rest" "(d, r) \<in> set (one rest)"
    by (auto simp: day_alts_def split: list.splits if_splits)
  then show ?thesis
  proof cases
    case 1
    from two_ascii_D [OF this] show ?thesis by (auto simp: day_forms_def)
  next
    case 2
    from two_D [OF this] obtain a b p q where s: "s = a # b # r"
      and f: "ascii_digit a = Some p" "decimal zeros b = Some q"
      and p: "1 \<le> p" "p \<le> 2" and d: "d = 10 * p + q"
      by blast
    note q = decimal_Some [OF f(2)]
    have dm: "d div 10 = p" "d mod 10 = q"
      unfolding d using split_div [of q 10 p] q by simp_all
    have a: "a = show_digit p" using ascii_digit_Some [OF f(1)] by simp
    have r: "10 \<le> d" "d \<le> 29" using p q d by simp_all
    have "[a, b] \<in> set (day_forms zeros d)"
      using r q by (simp add: day_forms_def dm a)
    with r s show ?thesis by auto
  next
    case 3
    from two_ascii_D [OF this] show ?thesis by (auto simp: day_forms_def)
  next
    case 4
    from one_D [OF this] show ?thesis by (simp add: day_forms_def)
  next
    case 5
    from one_D [OF 5(2)] 5(1) show ?thesis by (simp add: day_forms_def)
  qed
qed

lemma regex_match_D:
  assumes "(y, m, d, r) \<in> set (regex_match zeros s)"
  shows "0 \<le> y \<and> y \<le> 9999 \<and> 1 \<le> m \<and> m \<le> 12 \<and> 1 \<le> d \<and> d \<le> 31
     \<and> (\<exists>ys \<in> set (year_forms zeros y). \<exists>ms \<in> set (month_forms m).
          \<exists>ds \<in> set (day_forms zeros d). s = ys @ [45] @ ms @ [45] @ ds @ r)"
proof -
  from assms obtain r1 r2 r3 r4 where
    "(y, r1) \<in> set (year_alts zeros s)" "r2 \<in> set (dash r1)" "(m, r3) \<in> set (month_alts r2)"
    "r4 \<in> set (dash r3)" "(d, r) \<in> set (day_alts zeros r4)"
    by (auto simp: regex_match_def)
  then show ?thesis
    using year_alts_D [of y r1 zeros s] dash_D [of r2 r1] month_alts_D [of m r3 r2]
      dash_D [of r4 r3] day_alts_D [of d r zeros r4]
    by auto
qed

lemma strptime_Inr_D:
  assumes "strptime zeros s = Inr (y, m, d)"
  shows "calendar_date y m d \<and> s \<in> set (renderings zeros y m d)"
proof -
  from assms obtain rest where hd: "regex_match zeros s = (y, m, d, []) # rest"
    and ok: "1 \<le> y" "d \<le> days_in_month y m"
    by (auto simp: strptime_def split: list.splits if_splits)
  then have "(y, m, d, []) \<in> set (regex_match zeros s)" by simp
  from regex_match_D [OF this] ok show ?thesis
    by (auto simp: calendar_date_def renderings_def)
qed

lemma digits_of:
  fixes y :: int
  assumes "0 \<le> y" "y \<le> 9999"
  shows "0 \<le> y div 1000 \<and> y div 1000 \<le> 9"
    and "1000 * (y div 1000) + 100 * (y div 100 mod 10) + 10 * (y div 10 mod 10) + y mod 10 = y"
proof -
  show "0 \<le> y div 1000 \<and> y div 1000 \<le> 9" using assms by arith
  have e2: "y div 100 = y div 10 div 10" and e3: "y div 1000 = y div 10 div 10 div 10"
    by (simp_all add: div_mult2_eq)
  have h1: "y = 10 * (y div 10) + y mod 10" by simp
  have h2: "y div 10 = 10 * (y div 10 div 10) + y div 10 mod 10" by simp
  have h3: "y div 10 div 10 = 10 * (y div 10 div 10 div 10) + y div 10 div 10 mod 10" by simp
  show "1000 * (y div 1000) + 100 * (y div 100 mod 10) + 10 * (y div 10 mod 10) + y mod 10 = y"
    unfolding e2 e3 using h1 h2 h3 by linarith
qed

lemma year_alts_form:
  assumes "0 \<le> y" "y \<le> 9999" "ys \<in> set (year_forms zeros y)"
  shows "year_alts zeros (ys @ r) = [(y, r)]"
proof -
  from assms(3) obtain a b c d where ys: "ys = [a, b, c, d]"
    and f: "a \<in> set (digit_forms zeros (y div 1000))"
      "b \<in> set (digit_forms zeros (y div 100 mod 10))"
      "c \<in> set (digit_forms zeros (y div 10 mod 10))"
      "d \<in> set (digit_forms zeros (y mod 10))"
    by (auto simp: year_forms_def)
  note d = digit_forms_D [OF f(1)] digit_forms_D [OF f(2)] digit_forms_D [OF f(3)]
    digit_forms_D [OF f(4)]
  show ?thesis
    using digits_of(2) [OF assms(1,2)] by (simp add: ys d)
qed

lemma pad4_year_form:
  assumes "0 \<le> y" "y \<le> 9999"
  shows "pad4 y \<in> set (year_forms zeros y)"
proof -
  have "0 \<le> y div 1000" "y div 1000 \<le> 9" using digits_of(1) [OF assms] by simp_all
  then have "show_digit (y div 1000) \<in> set (digit_forms zeros (y div 1000))"
    by (rule show_digit_form)
  moreover have "show_digit (y div 100 mod 10) \<in> set (digit_forms zeros (y div 100 mod 10))"
    "show_digit (y div 10 mod 10) \<in> set (digit_forms zeros (y div 10 mod 10))"
    "show_digit (y mod 10) \<in> set (digit_forms zeros (y mod 10))"
    by (simp_all add: show_digit_form)
  ultimately show ?thesis
    unfolding pad4_def year_forms_def by auto
qed

lemma month_cases:
  "1 \<le> m \<Longrightarrow> m \<le> 12 \<Longrightarrow>
     m = 1 \<or> m = 2 \<or> m = 3 \<or> m = 4 \<or> m = 5 \<or> m = 6 \<or> m = 7 \<or> m = 8 \<or> m = 9
     \<or> m = 10 \<or> m = 11 \<or> m = (12::int)"
  by arith

lemma month_alts_form:
  assumes "1 \<le> m" "m \<le> 12" "ms \<in> set (month_forms m)"
  shows "\<exists>xs. month_alts (ms @ 45 # t) = (m, 45 # t) # xs \<and> dead xs"
  using month_cases [OF assms(1,2)] assms(3)
  by (elim disjE)
     (auto simp: month_forms_def pad2_def show_digit_def month_alts_def two_def one_def
        ascii_digit_def dash_def dead_def)

lemma day_alts_ascii:
  assumes "d = 1 \<or> d = 2 \<or> d = 3 \<or> d = 4 \<or> d = 5 \<or> d = 6 \<or> d = 7 \<or> d = 8 \<or> d = 9
     \<or> d = 30 \<or> d = (31::int)"
    and "ds \<in> set (day_forms zeros d)"
  shows "\<exists>xs. day_alts zeros ds = (d, []) # xs"
  using assms
  by (elim disjE)
     (auto simp: day_forms_def pad2_def show_digit_def day_alts_def two_def one_def
        ascii_digit_def decimal_def)

lemma day_alts_two:
  assumes "1 \<le> p" "p \<le> 2" "decimal zeros b = Some q"
  shows "\<exists>xs. day_alts zeros [show_digit p, b] = (10 * p + q, []) # xs"
proof -
  have a: "ascii_digit (show_digit p) = Some p"
    using assms(1,2) by (simp add: ascii_digit_show)
  have "two ascii_digit ascii_digit (\<lambda>p q. p = 3 \<and> q \<le> 1) [show_digit p, b] = []"
    using assms(1,2) by (simp add: two_def a split: option.splits)
  moreover have "two ascii_digit (decimal zeros) (\<lambda>p q. 1 \<le> p \<and> p \<le> 2) [show_digit p, b]
      = [(10 * p + q, [])]"
    using assms by (simp add: two_def a)
  ultimately show ?thesis by (simp add: day_alts_def)
qed

lemma day_alts_form:
  assumes "1 \<le> d" "d \<le> 31" "ds \<in> set (day_forms zeros d)"
  shows "\<exists>xs. day_alts zeros ds = (d, []) # xs"
proof (cases "10 \<le> d \<and> d \<le> 29")
  case True
  with assms(3) obtain b where ds: "ds = [show_digit (d div 10), b]"
    and b: "b \<in> set (digit_forms zeros (d mod 10))"
    by (auto simp: day_forms_def)
  from True have p: "1 \<le> d div 10" "d div 10 \<le> 2" by arith+
  have "10 * (d div 10) + d mod 10 = d" by simp
  with day_alts_two [OF p digit_forms_D [OF b]] ds show ?thesis by simp
next
  case False
  with assms(1,2) have "d = 1 \<or> d = 2 \<or> d = 3 \<or> d = 4 \<or> d = 5 \<or> d = 6 \<or> d = 7 \<or> d = 8
     \<or> d = 9 \<or> d = 30 \<or> d = 31" by arith
  then show ?thesis using assms(3) by (rule day_alts_ascii)
qed

lemma dash_Cons: "dash (45 # r) = [r]"
  by (simp add: dash_def)

lemma dead_concat:
  "dead xs \<Longrightarrow> concat (map (\<lambda>(m, r3). concat (map (f m) (dash r3))) xs) = []"
  by (induction xs) (auto simp: dead_def)

lemma regex_match_form:
  assumes "0 \<le> y" "y \<le> 9999" "1 \<le> m" "m \<le> 12" "1 \<le> d" "d \<le> 31"
    and "ys \<in> set (year_forms zeros y)" "ms \<in> set (month_forms m)"
    and "ds \<in> set (day_forms zeros d)"
  shows "\<exists>xs. regex_match zeros (ys @ [45] @ ms @ [45] @ ds) = (y, m, d, []) # xs"
proof -
  obtain xs where xs: "month_alts (ms @ 45 # ds) = (m, 45 # ds) # xs" "dead xs"
    using month_alts_form [OF assms(3,4,8)] by blast
  obtain zs where zs: "day_alts zeros ds = (d, []) # zs"
    using day_alts_form [OF assms(5,6,9)] by blast
  have y: "year_alts zeros (ys @ 45 # ms @ 45 # ds) = [(y, 45 # ms @ 45 # ds)]"
    using assms(1,2,7) by (rule year_alts_form)
  have "regex_match zeros (ys @ 45 # ms @ 45 # ds)
      = map (\<lambda>(d, r5). (y, m, d, r5)) (day_alts zeros ds)"
    unfolding regex_match_def y
    by (simp add: dash_Cons xs(1) dead_concat [OF xs(2)])
  then show ?thesis by (simp add: zs)
qed

lemma strptime_form:
  assumes "calendar_date y m d" "s \<in> set (renderings zeros y m d)"
  shows "strptime zeros s = Inr (y, m, d)"
proof -
  from assms(1) have b: "1 \<le> y" "y \<le> 9999" "1 \<le> m" "m \<le> 12" "1 \<le> d" "d \<le> days_in_month y m"
    by (simp_all add: calendar_date_def)
  have "days_in_month y m \<le> 31"
    using month_cases [OF b(3,4)] by (auto simp: days_in_month_def DAYS_IN_MONTH_def)
  with b have d31: "d \<le> 31" by simp
  from assms(2) obtain ys ms ds where f: "ys \<in> set (year_forms zeros y)"
    "ms \<in> set (month_forms m)" "ds \<in> set (day_forms zeros d)"
    and s: "s = ys @ [45] @ ms @ [45] @ ds"
    by (auto simp: renderings_def)
  from b have y0: "0 \<le> y" by simp
  obtain xs where "regex_match zeros s = (y, m, d, []) # xs"
    using regex_match_form [OF y0 b(2,3,4,5) d31 f] s by blast
  with b show ?thesis by (simp add: strptime_def)
qed

lemma div_step:
  fixes y k :: int
  assumes "0 < k"
  shows "y div k = (y - 1) div k + (if y mod k = 0 then 1 else 0)"
proof -
  define q where "q = (y - 1) div k"
  define r where "r = (y - 1) mod k"
  have y: "y = k * q + (r + 1)"
    using mult_div_mod_eq [of k "y - 1"] by (simp add: q_def r_def)
  have r: "0 \<le> r" "r < k" using assms by (simp_all add: r_def)
  show ?thesis
  proof (cases "r + 1 < k")
    case True
    with r have "(k * q + (r + 1)) div k = q" "(k * q + (r + 1)) mod k = r + 1"
      by (simp_all add: split_div)
    with r show ?thesis unfolding y [symmetric] q_def [symmetric] by simp
  next
    case False
    with r have k: "r + 1 = k" by simp
    have "y = k * q + k" using y k by simp
    then have "y = k * (q + 1)" by (simp add: distrib_left)
    with assms have "y div k = q + 1" "y mod k = 0" by simp_all
    then show ?thesis unfolding q_def by simp
  qed
qed

lemma mod_400_100_4:
  fixes y :: int
  shows "y mod 400 = 0 \<Longrightarrow> y mod 100 = 0" "y mod 100 = 0 \<Longrightarrow> y mod 4 = 0"
proof -
  have "(100::int) dvd 400" "(4::int) dvd 100" by simp_all
  then show "y mod 400 = 0 \<Longrightarrow> y mod 100 = 0" "y mod 100 = 0 \<Longrightarrow> y mod 4 = 0"
    by (auto simp: mod_eq_0_iff_dvd intro: dvd_trans)
qed

lemma leap_count:
  fixes P Q S :: bool
  assumes "S \<longrightarrow> Q" "Q \<longrightarrow> P"
  shows "(if P \<and> (\<not> Q \<or> S) then 366 else 365)
     = 365 + (if P then 1 else 0) - (if Q then 1 else 0) + (if S then 1 else (0::int))"
  using assms by (cases P; cases Q; cases S) simp_all

lemma days_before_year_Suc:
  "days_before_year (y + 1) = days_before_year y + (if is_leap y then 366 else 365)"
proof -
  define a where "a = (y - 1) div 4"
  define b where "b = (y - 1) div 100"
  define c where "c = (y - 1) div 400"
  define p :: int where "p = (if y mod 4 = 0 then 1 else 0)"
  define q :: int where "q = (if y mod 100 = 0 then 1 else 0)"
  define s :: int where "s = (if y mod 400 = 0 then 1 else 0)"
  have e4: "y div 4 = a + p" unfolding a_def p_def by (rule div_step) simp
  have e100: "y div 100 = b + q" unfolding b_def q_def by (rule div_step) simp
  have e400: "y div 400 = c + s" unfolding c_def s_def by (rule div_step) simp
  have "days_before_year (y + 1) = y * 365 + y div 4 - y div 100 + y div 400"
    by (simp add: days_before_year_def)
  then have lhs: "days_before_year (y + 1) = y * 365 + (a + p) - (b + q) + (c + s)"
    unfolding e4 e100 e400 .
  have rhs: "days_before_year y = (y - 1) * 365 + a - b + c"
    unfolding days_before_year_def Let_def a_def b_def c_def ..
  have leap: "(if is_leap y then 366 else 365) = 365 + p - q + s"
    unfolding is_leap_def p_def q_def s_def
    by (rule leap_count) (use mod_400_100_4 [of y] in blast)+
  show ?thesis
    unfolding lhs rhs leap by (simp add: algebra_simps)
qed

lemma days_before_month_Suc:
  assumes "1 \<le> m" "m \<le> 11"
  shows "days_before_month y (m + 1) = days_before_month y m + days_in_month y m"
proof -
  from assms have "m = 1 \<or> m = 2 \<or> m = 3 \<or> m = 4 \<or> m = 5 \<or> m = 6 \<or> m = 7 \<or> m = 8 \<or> m = 9
     \<or> m = 10 \<or> m = 11" by arith
  then show ?thesis
    by (elim disjE) (simp_all add: days_before_month_def days_in_month_def DAYS_IN_MONTH_def)
qed

lemma ymd2ord_next_day:
  assumes "1 \<le> m" "m \<le> 12" "1 \<le> d" "d \<le> days_in_month y m"
    and "next_day y m d = (y', m', d')"
  shows "ymd2ord y' m' d' = ymd2ord y m d + 1"
proof (cases "d < days_in_month y m")
  case True
  with assms(5) show ?thesis by (auto simp: next_day_def ymd2ord_def)
next
  case False
  with assms(4) have d: "d = days_in_month y m" by simp
  show ?thesis
  proof (cases "m < 12")
    case True
    with assms(1) have "days_before_month y (m + 1) = days_before_month y m + days_in_month y m"
      by (intro days_before_month_Suc) auto
    with True False assms(5) show ?thesis
      by (auto simp: next_day_def ymd2ord_def d)
  next
    case m12: False
    with assms(2) have m: "m = 12" by simp
    have "days_before_month y 12 = (if is_leap y then 335 else 334)" "days_in_month y 12 = 31"
      "days_before_month (y + 1) 1 = 0"
      by (simp_all add: days_before_month_def days_in_month_def DAYS_IN_MONTH_def)
    with False assms(5) show ?thesis
      by (auto simp: next_day_def ymd2ord_def d m days_before_year_Suc)
  qed
qed

lemma timestamp_epoch: "timestamp 1970 1 1 0 0 0 = 0"
  by (simp add: timestamp_def ymd2ord_def days_before_year_def days_before_month_def
      DAYS_IN_MONTH_def is_leap_def Let_def)

lemma number2_D:
  assumes "number2 a b = Some v"
  shows "\<exists>p q. 0 \<le> p \<and> p \<le> 9 \<and> 0 \<le> q \<and> q \<le> 9 \<and> v = 10 * p + q
           \<and> a = show_digit p \<and> b = show_digit q"
proof -
  from assms obtain p q where d: "ascii_digit a = Some p" "ascii_digit b = Some q"
    and v: "v = 10 * p + q"
    by (cases "ascii_digit a"; cases "ascii_digit b") (auto simp: number2_def)
  from ascii_digit_Some [OF d(1)] ascii_digit_Some [OF d(2)] v show ?thesis by blast
qed

lemma yyyy_mm_dd_iso:
  assumes "yyyy_mm_dd s"
  shows "\<exists>y m d. calendar_date y m d \<and> s = iso_date y m d"
proof -
  from assms obtain y1 y2 y3 y4 m1 m2 d1 d2 where
    s: "s = [y1, y2, y3, y4, 45, m1, m2, 45, d1, d2]"
    by (auto simp: yyyy_mm_dd_def split: list.splits)
  with assms obtain c y m d where
    n: "number2 y1 y2 = Some c" "number2 y3 y4 = Some y" "number2 m1 m2 = Some m"
      "number2 d1 d2 = Some d"
    and cal: "calendar_date (100 * c + y) m d"
    by (cases "number2 y1 y2"; cases "number2 y3 y4"; cases "number2 m1 m2";
        cases "number2 d1 d2") (auto simp: yyyy_mm_dd_def)
  from number2_D [OF n(1)] obtain p1 q1 where c: "0 \<le> p1" "p1 \<le> 9" "0 \<le> q1" "q1 \<le> 9"
    "c = 10 * p1 + q1" "y1 = show_digit p1" "y2 = show_digit q1" by blast
  from number2_D [OF n(2)] obtain p2 q2 where y: "0 \<le> p2" "p2 \<le> 9" "0 \<le> q2" "q2 \<le> 9"
    "y = 10 * p2 + q2" "y3 = show_digit p2" "y4 = show_digit q2" by blast
  from number2_D [OF n(3)] obtain p3 q3 where m: "0 \<le> p3" "p3 \<le> 9" "0 \<le> q3" "q3 \<le> 9"
    "m = 10 * p3 + q3" "m1 = show_digit p3" "m2 = show_digit q3" by blast
  from number2_D [OF n(4)] obtain p4 q4 where d: "0 \<le> p4" "p4 \<le> 9" "0 \<le> q4" "q4 \<le> 9"
    "d = 10 * p4 + q4" "d1 = show_digit p4" "d2 = show_digit q4" by blast
  have v: "100 * c + y = 1000 * p1 + 100 * q1 + 10 * p2 + q2"
    by (simp add: c(5) y(5))
  have "pad4 (100 * c + y) = [y1, y2, y3, y4]"
    unfolding v using c y by (simp add: pad4_digits)
  moreover have "pad2 m = [m1, m2]" using m by (simp add: pad2_digits)
  moreover have "pad2 d = [d1, d2]" using d by (simp add: pad2_digits)
  ultimately have "iso_date (100 * c + y) m d = s"
    by (simp add: iso_date_def s)
  with cal show ?thesis by metis
qed

lemma pad2_day_form:
  assumes "1 \<le> d" "d \<le> 31"
  shows "pad2 d \<in> set (day_forms zeros d)"
proof (cases "10 \<le> d \<and> d \<le> 29")
  case True
  have "0 \<le> d mod 10" "d mod 10 \<le> 9" by simp_all
  from show_digit_form [OF this] True show ?thesis
    by (simp add: day_forms_def pad2_def)
next
  case False
  then show ?thesis by (auto simp: day_forms_def)
qed

lemma iso_date_rendering:
  assumes "calendar_date y m d"
  shows "iso_date y m d \<in> set (renderings zeros y m d)"
proof -
  from assms have b: "0 \<le> y" "y \<le> 9999" "1 \<le> m" "m \<le> 12" "1 \<le> d" "d \<le> days_in_month y m"
    by (simp_all add: calendar_date_def)
  have "days_in_month y m \<le> 31"
    using month_cases [OF b(3,4)] by (auto simp: days_in_month_def DAYS_IN_MONTH_def)
  with b have d31: "d \<le> 31" by simp
  have "pad4 y \<in> set (year_forms zeros y)" using b(1,2) by (rule pad4_year_form)
  moreover have "pad2 m \<in> set (month_forms m)" by (simp add: month_forms_def)
  moreover have "pad2 d \<in> set (day_forms zeros d)" using b(5) d31 by (rule pad2_day_form)
  ultimately show ?thesis
    unfolding iso_date_def renderings_def by auto
qed

text \<open>
  C9, as amended. The conversion returns a number for every string; \<open>ValueError\<close> is the
  only exception of the parsing, and it is caught. A string gets a timestamp when it
  writes a date of the calendar (years 1 to 9999) with a year of four decimal digits, of
  any scripts of Unicode, a dash, the month in ASCII digits with two digits or without its
  leading zero, a dash, and the day in ASCII digits with two digits, without its leading
  zero or with a space for it, or, from the 10th to the 29th, with a second digit of any
  script; the timestamp is that of the day in UTC, at 23:59:59 when \<open>end_of_day\<close> is true
  and at midnight otherwise. Every other string gets 0. Every well-formed YYYY-MM-DD date
  in ASCII digits is among the strings that get a timestamp. The timestamp of 1970-01-01
  at midnight is 0, the end of a day is 86399 seconds after its midnight, and the
  midnight of the next day 86400 seconds after. All of this holds whatever the scripts
  with decimal digits are.
\<close>

theorem date_to_timestamp_forms:
  "(calendar_date y m d \<and> s \<in> set (renderings zeros y m d) \<longrightarrow>
      date_to_timestamp zeros s eod =
        (if eod then timestamp y m d 23 59 59 else timestamp y m d 0 0 0))
   \<and> ((\<nexists>y m d. calendar_date y m d \<and> s \<in> set (renderings zeros y m d)) \<longrightarrow>
        date_to_timestamp zeros s eod = 0)
   \<and> (yyyy_mm_dd s \<longrightarrow>
        (\<exists>y m d. calendar_date y m d \<and> s = iso_date y m d
                 \<and> s \<in> set (renderings zeros y m d)))
   \<and> timestamp 1970 1 1 0 0 0 = 0
   \<and> timestamp y m d 23 59 59 = timestamp y m d 0 0 0 + 86399
   \<and> (calendar_date y m d \<and> next_day y m d = (y', m', d') \<longrightarrow>
        timestamp y' m' d' 0 0 0 = timestamp y m d 0 0 0 + 86400)"
proof -
  have a: "date_to_timestamp zeros s eod =
        (if eod then timestamp y m d 23 59 59 else timestamp y m d 0 0 0)"
    if "calendar_date y m d" "s \<in> set (renderings zeros y m d)"
    using strptime_form [OF that] by (simp add: date_to_timestamp_def)
  have b: "date_to_timestamp zeros s eod = 0"
    if "\<nexists>y m d. calendar_date y m d \<and> s \<in> set (renderings zeros y m d)"
  proof (cases "strptime zeros s")
    case (Inl msg)
    then show ?thesis by (simp add: date_to_timestamp_def)
  next
    case (Inr ymd)
    obtain y m d where "ymd = (y, m, d)" by (cases ymd)
    with Inr that strptime_Inr_D [of zeros s y m d] show ?thesis by blast
  qed
  have c: "\<exists>y m d. calendar_date y m d \<and> s = iso_date y m d
      \<and> s \<in> set (renderings zeros y m d)"
    if "yyyy_mm_dd s"
    using yyyy_mm_dd_iso [OF that] iso_date_rendering by blast
  have e: "timestamp y m d 23 59 59 = timestamp y m d 0 0 0 + 86399"
    by (simp add: timestamp_def)
  have f: "timestamp y' m' d' 0 0 0 = timestamp y m d 0 0 0 + 86400"
    if "calendar_date y m d" "next_day y m d = (y', m', d')"
  proof -
    from that(1) have "1 \<le> m" "m \<le> 12" "1 \<le> d" "d \<le> days_in_month y m"
      by (simp_all add: calendar_date_def)
    from ymd2ord_next_day [OF this that(2)] show ?thesis
      by (simp add: timestamp_def)
  qed
  show ?thesis
    using a b c e f timestamp_epoch by blast
qed

theorem date_to_timestamp_forms_witness:
  "calendar_date 2024 2 29
   \<and> code_points ''2024-02-29'' \<in> set (renderings [1632, 65296] 2024 2 29)
   \<and> yyyy_mm_dd (code_points ''2024-02-29'')
   \<and> date_to_timestamp [1632, 65296] (code_points ''2024-02-29'') True = 1709251199
   \<and> date_to_timestamp [1632, 65296] (code_points ''2024-2-29'') False = 1709164800
   \<and> [65298, 65296, 65298, 65300] @ code_points ''-02-2'' @ [1641]
        \<in> set (renderings [1632, 65296] 2024 2 29)
   \<and> date_to_timestamp [1632, 65296]
        ([65298, 65296, 65298, 65300] @ code_points ''-02-2'' @ [1641]) False = 1709164800
   \<and> next_day 2024 2 29 = (2024, 3, 1)
   \<and> timestamp 2024 3 1 0 0 0 = 1709251200
   \<and> date_to_timestamp [1632, 65296] [] False = 0"
proof -
  have cal: "calendar_date 2024 2 29"
    by (simp add: calendar_date_def days_in_month_def is_leap_def)
  have r: "code_points ''2024-02-29'' \<in> set (renderings [1632, 65296] 2024 2 29)"
    "code_points ''2024-2-29'' \<in> set (renderings [1632, 65296] 2024 2 29)"
    "[65298, 65296, 65298, 65300] @ code_points ''-02-2'' @ [1641]
        \<in> set (renderings [1632, 65296] 2024 2 29)"
    by (simp_all add: renderings_def year_forms_def month_forms_def day_forms_def
        digit_forms_def decimal_def pad2_def show_digit_def code_points_def)
  have w: "yyyy_mm_dd (code_points ''2024-02-29'')"
    by (simp add: yyyy_mm_dd_def number2_def ascii_digit_def calendar_date_def
        days_in_month_def is_leap_def code_points_def)
  have n: "next_day 2024 2 29 = (2024, 3, 1)"
    by (simp add: next_day_def days_in_month_def is_leap_def)
  have t: "timestamp 2024 2 29 0 0 0 = 1709164800"
    by (simp add: timestamp_def ymd2ord_def days_before_year_def days_before_month_def
        DAYS_IN_MONTH_def is_leap_def Let_def)
  have none: "\<nexists>y m d. calendar_date y m d \<and> [] \<in> set (renderings [1632, 65296] y m d)"
    by (auto simp: renderings_def)
  show ?thesis
    using cal r w n t none
      date_to_timestamp_forms [of 2024 2 29 "code_points ''2024-02-29''" "[1632, 65296]" True 2024 3 1]
      date_to_timestamp_forms [of 2024 2 29 "code_points ''2024-2-29''" "[1632, 65296]" False 2024 3 1]
      date_to_timestamp_forms [of 2024 2 29
        "[65298, 65296, 65298, 65300] @ code_points ''-02-2'' @ [1641]" "[1632, 65296]" False 2024 3 1]
      date_to_timestamp_forms [of 2024 2 29 "[]" "[1632, 65296]" False 2024 3 1]
    by simp
qed

text \<open>
  C9 as the claim states it fails in its first part: the string 2024-1-5 is not of the
  form YYYY-MM-DD, and its timestamp is not 0 but that of the fifth of January 2024,
  whatever the scripts with decimal digits are.
\<close>

theorem date_to_timestamp_forms_counterexample:
  "\<not> yyyy_mm_dd (code_points ''2024-1-5'')
   \<and> (\<forall>zeros. date_to_timestamp zeros (code_points ''2024-1-5'') False = 1704412800)"
  by (simp add: yyyy_mm_dd_def date_to_timestamp_def strptime_def regex_match_def dash_def
      month_alts_def day_alts_def two_def one_def ascii_digit_def decimal_def
      days_in_month_def is_leap_def DAYS_IN_MONTH_def timestamp_def ymd2ord_def
      days_before_year_def days_before_month_def code_points_def Let_def)

end
